theory Spec2Isabelle
  imports Main "HOL-Library.Word"
begin

unbundle bit_operations_syntax

section \<open>The container physical map of libfsapfs\<close>

text \<open>
  A shallow embedding of \<^verbatim>\<open>libfsapfs/libfsapfs_container_physical_map.c\<close>: the
  decoder \<^verbatim>\<open>libfsapfs_container_physical_map_read_data\<close> of a physical-map block and
  the lookup \<^verbatim>\<open>libfsapfs_container_physical_map_get_physical_address_by_object_identifier\<close>.
  A pointer argument is an \<open>option\<close> (\<open>None\<close> is \<^verbatim>\<open>NULL\<close>), a byte buffer is a list of
  8-bit words whose length is \<^verbatim>\<open>data_size\<close>, and an object reached through a pointer
  is passed in and returned. A function that returns \<^verbatim>\<open>-1\<close> returns in \<open>Inl\<close> the error
  domain and code that it hands itself to \<^verbatim>\<open>libcerror_error_set\<close> on that path; the
  debug output (\<^verbatim>\<open>HAVE_DEBUG_OUTPUT\<close>) is left out.
\<close>

subsection \<open>Machine integers, bytes and errors\<close>

type_synonym uint8_t = "8 word"
type_synonym uint32_t = "32 word"
type_synonym uint64_t = "64 word"

text \<open>
  The pairs of error domain and error code that the modelled functions hand to
  \<^verbatim>\<open>libcerror_error_set\<close>; the name of the domain is the first part of each name.
\<close>

datatype libcerror_error =
    ARGUMENT_ERROR_INVALID_VALUE
  | IO_ERROR_READ_FAILED
  | MEMORY_ERROR_INSUFFICIENT
  | MEMORY_ERROR_SET_FAILED
  | RUNTIME_ERROR_VALUE_ALREADY_SET
  | RUNTIME_ERROR_VALUE_MISSING
  | RUNTIME_ERROR_VALUE_OUT_OF_BOUNDS
  | RUNTIME_ERROR_UNSUPPORTED_VALUE
  | RUNTIME_ERROR_INITIALIZE_FAILED
  | RUNTIME_ERROR_APPEND_FAILED
  | RUNTIME_ERROR_GET_FAILED

text \<open>The error kinds of the specification (section 7).\<close>

datatype error_kind =
    ArgumentError
  | OutOfBounds
  | Truncated
  | UnsupportedType
  | IntegrityError
  | StructuralError
  | NotFound

text \<open>
  The reading of the specification's error kinds on the library's error codes, following
  the words of section 7: an invalid caller-supplied handle is an \<open>ArgumentError\<close>, a
  value out of bounds is \<open>OutOfBounds\<close>, an unsupported value is \<open>UnsupportedType\<close>. The
  other codes (memory, initialisation, append, get and nested read failures) have no kind
  of their own in the specification.
\<close>

fun error_kind_of :: "libcerror_error \<Rightarrow> error_kind option" where
  "error_kind_of ARGUMENT_ERROR_INVALID_VALUE = Some ArgumentError"
| "error_kind_of RUNTIME_ERROR_VALUE_OUT_OF_BOUNDS = Some OutOfBounds"
| "error_kind_of RUNTIME_ERROR_UNSUPPORTED_VALUE = Some UnsupportedType"
| "error_kind_of _ = None"

text \<open>
  The platform's \<^verbatim>\<open>SSIZE_MAX\<close> and the wrap-around of \<^verbatim>\<open>size_t\<close> subtraction, for a
  platform with 64-bit sizes.
\<close>

definition SSIZE_MAX :: nat where
  "SSIZE_MAX = 2 ^ 63 - 1"

definition size_t_minus :: "nat \<Rightarrow> nat \<Rightarrow> nat" where
  "size_t_minus a b = (a + 2 ^ 64 - b mod 2 ^ 64) mod 2 ^ 64"

text \<open>
  The macros \<^verbatim>\<open>byte_stream_copy_to_uint32_little_endian\<close> and
  \<^verbatim>\<open>byte_stream_copy_to_uint64_little_endian\<close>: the value starts from the last byte of
  the field and takes each earlier byte after a shift left by 8 bits. The field is the
  \<open>4\<close> or \<open>8\<close> bytes at an offset of the buffer.
\<close>

fun byte_stream_little_endian :: "uint8_t list \<Rightarrow> 'a::len word" where
  "byte_stream_little_endian [] = 0"
| "byte_stream_little_endian (b # bs) = push_bit 8 (byte_stream_little_endian bs) OR ucast b"

definition byte_stream_copy_to_uint32_little_endian :: "uint8_t list \<Rightarrow> nat \<Rightarrow> uint32_t" where
  "byte_stream_copy_to_uint32_little_endian data field_offset =
     byte_stream_little_endian (take 4 (drop field_offset data))"

definition byte_stream_copy_to_uint64_little_endian :: "uint8_t list \<Rightarrow> nat \<Rightarrow> uint64_t" where
  "byte_stream_copy_to_uint64_little_endian data field_offset =
     byte_stream_little_endian (take 8 (drop field_offset data))"

subsection \<open>The on-disk layout\<close>

text \<open>
  The header \<^verbatim>\<open>fsapfs_container_physical_map.h\<close> that declares the on-disk structures
  \<^verbatim>\<open>fsapfs_container_physical_map_t\<close> and \<^verbatim>\<open>fsapfs_container_physical_map_entry_t\<close> is
  not among the sources. What the code takes from it and the specification leaves open
  is a parameter of the model: the size of the map structure (the code compares
  \<^verbatim>\<open>data_size\<close> with it), and the offsets of the object identifier and of the physical
  address inside an entry record (the specification says only that each is at a fixed
  sub-offset).
\<close>

record fsapfs_layout =
  sizeof_fsapfs_container_physical_map :: nat
  entry_object_identifier_offset :: nat
  entry_physical_address_offset :: nat

text \<open>
  Modelled from the spec: the offset of the field \<^verbatim>\<open>object_type\<close> of
  \<^verbatim>\<open>fsapfs_container_physical_map_t\<close>, whose declaration is missing; section 6 places
  the field at byte 24 of the block.
\<close>

definition object_type_offset :: nat where
  "object_type_offset = 24"

text \<open>
  Modelled from the spec: the offset of the field \<^verbatim>\<open>number_of_entries\<close> of
  \<^verbatim>\<open>fsapfs_container_physical_map_t\<close>, whose declaration is missing; section 6 places
  the field at byte 36 of the block.
\<close>

definition number_of_entries_offset :: nat where
  "number_of_entries_offset = 36"

text \<open>
  Modelled from the spec: \<^verbatim>\<open>sizeof( fsapfs_container_physical_map_entry_t )\<close>, whose
  declaration is missing; section 6 gives every entry record 40 bytes.
\<close>

definition sizeof_fsapfs_container_physical_map_entry :: nat where
  "sizeof_fsapfs_container_physical_map_entry = 40"

text \<open>
  A layout is well formed when the map structure holds the 40 bytes of the header fields
  and both entry fields lie inside the entry record.
\<close>

definition layout_ok :: "fsapfs_layout \<Rightarrow> bool" where
  "layout_ok L =
     (40 \<le> sizeof_fsapfs_container_physical_map L
      \<and> entry_object_identifier_offset L + 8 \<le> sizeof_fsapfs_container_physical_map_entry
      \<and> entry_physical_address_offset L + 8 \<le> sizeof_fsapfs_container_physical_map_entry)"

subsection \<open>The map entry\<close>

text \<open>
  The entry structure \<^verbatim>\<open>libfsapfs_container_physical_map_entry_t\<close>. Its declaration is
  not among the sources; the record has the two fields that the lookup reads,
  \<^verbatim>\<open>map_entry->object_identifier\<close> and \<^verbatim>\<open>map_entry->physical_address\<close>, both
  \<^verbatim>\<open>uint64_t\<close>.
\<close>

record libfsapfs_container_physical_map_entry =
  object_identifier :: uint64_t
  physical_address :: uint64_t

text \<open>
  Modelled from the spec: \<^verbatim>\<open>libfsapfs_container_physical_map_entry_initialize\<close>, which
  is not among the sources (its test is). It allocates an entry and clears it, and fails
  when the allocation fails; \<open>allocation_ok\<close> says whether the allocation succeeds.
\<close>

definition libfsapfs_container_physical_map_entry_initialize ::
  "bool \<Rightarrow> libfsapfs_container_physical_map_entry option" where
  "libfsapfs_container_physical_map_entry_initialize allocation_ok =
     (if allocation_ok then Some \<lparr>object_identifier = 0, physical_address = 0\<rparr> else None)"

text \<open>
  Modelled from the spec: \<^verbatim>\<open>libfsapfs_container_physical_map_entry_read_data\<close>, which
  is not among the sources (its test and its caller are). It decodes one fixed-size entry
  record of 40 bytes; a buffer smaller than one entry record is a \<open>Truncated\<close> error
  (section 4.2). Its test has it fail as well on a \<^verbatim>\<open>NULL\<close> entry, on \<^verbatim>\<open>NULL\<close> data
  and on a size above \<^verbatim>\<open>SSIZE_MAX\<close>. The fields are little-endian (section 6).
\<close>

definition libfsapfs_container_physical_map_entry_read_data ::
  "fsapfs_layout \<Rightarrow> libfsapfs_container_physical_map_entry option \<Rightarrow> uint8_t list option \<Rightarrow> nat
     \<Rightarrow> error_kind + libfsapfs_container_physical_map_entry" where
  "libfsapfs_container_physical_map_entry_read_data L container_physical_map_entry data data_size =
     (case container_physical_map_entry of
        None \<Rightarrow> Inl ArgumentError
      | Some map_entry \<Rightarrow>
          (case data of
             None \<Rightarrow> Inl ArgumentError
           | Some bytes \<Rightarrow>
               if data_size < sizeof_fsapfs_container_physical_map_entry then Inl Truncated
               else if data_size > SSIZE_MAX then Inl OutOfBounds
               else Inr (map_entry
                 \<lparr>object_identifier :=
                    byte_stream_copy_to_uint64_little_endian bytes (entry_object_identifier_offset L),
                  physical_address :=
                    byte_stream_copy_to_uint64_little_endian bytes (entry_physical_address_offset L)\<rparr>)))"

subsection \<open>The entries array and the map\<close>

text \<open>
  Modelled from the spec: the array of libcdata, a library that is not among the sources.
  Section 9 describes it as an owned, growable ordered sequence with index-based append
  and get. The array holds pointers to entries, so an element is an \<open>option\<close>.
\<close>

type_synonym libcdata_array = "libfsapfs_container_physical_map_entry option list"

text \<open>
  Modelled from the spec: \<^verbatim>\<open>libcdata_array_get_number_of_entries\<close>, the length of the
  sequence; it fails on a \<^verbatim>\<open>NULL\<close> array.
\<close>

definition libcdata_array_get_number_of_entries :: "libcdata_array option \<Rightarrow> nat option" where
  "libcdata_array_get_number_of_entries array =
     (case array of None \<Rightarrow> None | Some entries \<Rightarrow> Some (length entries))"

text \<open>
  Modelled from the spec: \<^verbatim>\<open>libcdata_array_get_entry_by_index\<close>, the index-based get; it
  fails on a \<^verbatim>\<open>NULL\<close> array and on an index outside the array.
\<close>

definition libcdata_array_get_entry_by_index ::
  "libcdata_array option \<Rightarrow> nat \<Rightarrow> libfsapfs_container_physical_map_entry option option" where
  "libcdata_array_get_entry_by_index array entry_index =
     (case array of
        None \<Rightarrow> None
      | Some entries \<Rightarrow> if entry_index < length entries then Some (entries ! entry_index) else None)"

text \<open>
  Modelled from the spec: \<^verbatim>\<open>libcdata_array_append_entry\<close>, the append at the end of the
  sequence; it fails on a \<^verbatim>\<open>NULL\<close> array and when its allocation fails
  (\<open>allocation_ok\<close>).
\<close>

definition libcdata_array_append_entry ::
  "bool \<Rightarrow> libcdata_array option \<Rightarrow> libfsapfs_container_physical_map_entry option
     \<Rightarrow> libcdata_array option" where
  "libcdata_array_append_entry allocation_ok array entry =
     (case array of
        None \<Rightarrow> None
      | Some entries \<Rightarrow> if allocation_ok then Some (entries @ [entry]) else None)"

text \<open>
  The map structure \<^verbatim>\<open>libfsapfs_container_physical_map_t\<close>. Its declaration is not among
  the sources; the code uses its field \<^verbatim>\<open>entries_array\<close>, a pointer to the array.
\<close>

record libfsapfs_container_physical_map =
  entries_array :: "libcdata_array option"

text \<open>
  Whether the allocations of a call succeed is outside the program; the model takes it as
  an argument: for the initialisation of a map the three steps that can fail, for the
  decoding loop the creation of the entry and the append to the array at each index.
\<close>

record memory =
  memory_allocate_structure_ok :: bool
  memory_set_ok :: bool
  libcdata_array_initialize_ok :: bool
  entry_initialize_ok :: "nat \<Rightarrow> bool"
  array_append_ok :: "nat \<Rightarrow> bool"

text \<open>
  \<^verbatim>\<open>libfsapfs_container_physical_map_initialize\<close>. The argument is the pointer to the
  caller's pointer: \<open>None\<close> is a \<^verbatim>\<open>NULL\<close> argument, \<open>Some None\<close> a pointer that is still
  \<^verbatim>\<open>NULL\<close>, \<open>Some (Some m)\<close> one that is already set. The result is the return value and
  the caller's pointer after the call.
\<close>

definition libfsapfs_container_physical_map_initialize ::
  "memory \<Rightarrow> libfsapfs_container_physical_map option option
     \<Rightarrow> (libcerror_error + unit) \<times> libfsapfs_container_physical_map option option" where
  "libfsapfs_container_physical_map_initialize M container_physical_map =
     (case container_physical_map of
        None \<Rightarrow> (Inl ARGUMENT_ERROR_INVALID_VALUE, None)
      | Some (Some m) \<Rightarrow> (Inl RUNTIME_ERROR_VALUE_ALREADY_SET, Some (Some m))
      | Some None \<Rightarrow>
          if \<not> memory_allocate_structure_ok M then (Inl MEMORY_ERROR_INSUFFICIENT, Some None)
          else if \<not> memory_set_ok M then (Inl MEMORY_ERROR_SET_FAILED, Some None)
          else if \<not> libcdata_array_initialize_ok M then (Inl RUNTIME_ERROR_INITIALIZE_FAILED, Some None)
          else (Inr (), Some (Some \<lparr>entries_array = Some []\<rparr>)))"

subsection \<open>Decoding a block\<close>

text \<open>
  The loop of \<^verbatim>\<open>libfsapfs_container_physical_map_read_data\<close> over the entry records,
  from \<open>map_entry_index\<close> on, with the map as the state. On each failure the code jumps
  to \<^verbatim>\<open>on_error\<close>, which frees the entry in hand and returns \<^verbatim>\<open>-1\<close>; the map keeps
  what was appended. The index, a \<^verbatim>\<open>uint32_t\<close>, stays at most 101 and the offset, a
  \<^verbatim>\<open>size_t\<close>, at most \<open>40 + 40 * 101\<close>: neither wraps around, and both are natural
  numbers here. The size handed to the entry decoder is the \<^verbatim>\<open>size_t\<close> difference
  \<^verbatim>\<open>data_size - data_offset\<close>, with its wrap-around.
\<close>

function read_map_entries ::
  "fsapfs_layout \<Rightarrow> memory \<Rightarrow> uint8_t list \<Rightarrow> nat \<Rightarrow> nat \<Rightarrow> nat
     \<Rightarrow> libfsapfs_container_physical_map
     \<Rightarrow> (libcerror_error + unit) \<times> libfsapfs_container_physical_map" where
  "read_map_entries L M data number_of_map_entries map_entry_index data_offset m =
     (if map_entry_index < number_of_map_entries then
        (case libfsapfs_container_physical_map_entry_initialize (entry_initialize_ok M map_entry_index) of
           None \<Rightarrow> (Inl RUNTIME_ERROR_INITIALIZE_FAILED, m)
         | Some map_entry \<Rightarrow>
             (case libfsapfs_container_physical_map_entry_read_data L (Some map_entry)
                     (Some (drop data_offset data)) (size_t_minus (length data) data_offset) of
                Inl e \<Rightarrow> (Inl IO_ERROR_READ_FAILED, m)
              | Inr decoded_entry \<Rightarrow>
                  (case libcdata_array_append_entry (array_append_ok M map_entry_index)
                          (entries_array m) (Some decoded_entry) of
                     None \<Rightarrow> (Inl RUNTIME_ERROR_APPEND_FAILED, m)
                   | Some array \<Rightarrow>
                       read_map_entries L M data number_of_map_entries (map_entry_index + 1)
                         (data_offset + sizeof_fsapfs_container_physical_map_entry)
                         (m\<lparr>entries_array := Some array\<rparr>))))
      else (Inr (), m))"
  by pat_completeness auto
termination
  by (relation "measure (\<lambda>(L, M, data, n, i, off, m). n - i)") auto

text \<open>
  \<^verbatim>\<open>libfsapfs_container_physical_map_read_data\<close>: the checks of the arguments and of
  the size, the object type, the number of entries, and the loop from offset 40. The
  result is the return value and the map after the call.
\<close>

definition libfsapfs_container_physical_map_read_data ::
  "fsapfs_layout \<Rightarrow> memory \<Rightarrow> libfsapfs_container_physical_map option \<Rightarrow> uint8_t list option
     \<Rightarrow> (libcerror_error + unit) \<times> libfsapfs_container_physical_map option" where
  "libfsapfs_container_physical_map_read_data L M container_physical_map data =
     (case container_physical_map of
        None \<Rightarrow> (Inl ARGUMENT_ERROR_INVALID_VALUE, None)
      | Some m \<Rightarrow>
          (case data of
             None \<Rightarrow> (Inl RUNTIME_ERROR_VALUE_MISSING, Some m)
           | Some bytes \<Rightarrow>
               if length bytes < sizeof_fsapfs_container_physical_map L \<or> length bytes > SSIZE_MAX
               then (Inl RUNTIME_ERROR_VALUE_OUT_OF_BOUNDS, Some m)
               else if byte_stream_copy_to_uint32_little_endian bytes object_type_offset \<noteq> 0x4000000c
               then (Inl RUNTIME_ERROR_UNSUPPORTED_VALUE, Some m)
               else if byte_stream_copy_to_uint32_little_endian bytes number_of_entries_offset > 101
               then (Inl RUNTIME_ERROR_VALUE_OUT_OF_BOUNDS, Some m)
               else
                 (case read_map_entries L M bytes
                         (unat (byte_stream_copy_to_uint32_little_endian bytes number_of_entries_offset))
                         0 40 m of
                    (result, m') \<Rightarrow> (result, Some m'))))"

subsection \<open>Looking an object identifier up\<close>

text \<open>
  What a call of the lookup leaves behind: the return value, the error it set, the values
  it stored through \<^verbatim>\<open>physical_address\<close> in order, and the map after the call.
\<close>

record lookup_outcome =
  return_value :: int
  error :: "libcerror_error option"
  stored :: "uint64_t list"
  map_after :: "libfsapfs_container_physical_map option"

text \<open>
  The loop of the lookup over the indexes of the array, from \<open>entry_index\<close> on. The index
  and the number of entries are \<^verbatim>\<open>int\<close> in the code; the number is the length of the array
  and the index stays below it, so both are natural numbers here.
\<close>

function scan_entries ::
  "libfsapfs_container_physical_map \<Rightarrow> uint64_t \<Rightarrow> nat \<Rightarrow> nat \<Rightarrow> lookup_outcome" where
  "scan_entries m identifier number_of_entries entry_index =
     (if entry_index < number_of_entries then
        (case libcdata_array_get_entry_by_index (entries_array m) entry_index of
           None \<Rightarrow>
             \<lparr>return_value = - 1, error = Some RUNTIME_ERROR_GET_FAILED, stored = [], map_after = Some m\<rparr>
         | Some None \<Rightarrow>
             \<lparr>return_value = - 1, error = Some RUNTIME_ERROR_VALUE_MISSING, stored = [], map_after = Some m\<rparr>
         | Some (Some map_entry) \<Rightarrow>
             if identifier = object_identifier map_entry
             then \<lparr>return_value = 1, error = None, stored = [physical_address map_entry],
                    map_after = Some m\<rparr>
             else scan_entries m identifier number_of_entries (entry_index + 1))
      else \<lparr>return_value = 0, error = None, stored = [], map_after = Some m\<rparr>)"
  by pat_completeness auto
termination
  by (relation "measure (\<lambda>(m, identifier, n, i). n - i)") auto

text \<open>
  \<^verbatim>\<open>libfsapfs_container_physical_map_get_physical_address_by_object_identifier\<close>. The
  argument \<open>physical_address_pointer\<close> is \<open>None\<close> for a \<^verbatim>\<open>NULL\<close> pointer and \<open>Some v\<close> for a
  location that holds \<open>v\<close> before the call.
\<close>

definition libfsapfs_container_physical_map_get_physical_address_by_object_identifier ::
  "libfsapfs_container_physical_map option \<Rightarrow> uint64_t \<Rightarrow> uint64_t option \<Rightarrow> lookup_outcome" where
  "libfsapfs_container_physical_map_get_physical_address_by_object_identifier
     container_physical_map identifier physical_address_pointer =
     (case container_physical_map of
        None \<Rightarrow>
          \<lparr>return_value = - 1, error = Some ARGUMENT_ERROR_INVALID_VALUE, stored = [], map_after = None\<rparr>
      | Some m \<Rightarrow>
          (case physical_address_pointer of
             None \<Rightarrow>
               \<lparr>return_value = - 1, error = Some RUNTIME_ERROR_VALUE_MISSING, stored = [],
                map_after = Some m\<rparr>
           | Some v \<Rightarrow>
               (case libcdata_array_get_number_of_entries (entries_array m) of
                  None \<Rightarrow>
                    \<lparr>return_value = - 1, error = Some RUNTIME_ERROR_GET_FAILED, stored = [],
                     map_after = Some m\<rparr>
                | Some number_of_entries \<Rightarrow> scan_entries m identifier number_of_entries 0)))"

text \<open>The value at the caller's location after a call: the last value stored, if any.\<close>

definition location_after :: "uint64_t \<Rightarrow> uint64_t list \<Rightarrow> uint64_t" where
  "location_after v stores = (if stores = [] then v else last stores)"

subsection \<open>The entry records of a block\<close>

text \<open>
  The \<open>k\<close>-th entry record of a block: the 40 bytes from offset \<open>40 + 40 * k\<close>, less where
  the buffer ends before. \<open>block_entry\<close> is the entry whose fields are read at the offsets
  of the layout from the start of that record.
\<close>

definition map_entry_record :: "uint8_t list \<Rightarrow> nat \<Rightarrow> uint8_t list" where
  "map_entry_record data k =
     take sizeof_fsapfs_container_physical_map_entry
       (drop (40 + sizeof_fsapfs_container_physical_map_entry * k) data)"

definition block_entry ::
  "fsapfs_layout \<Rightarrow> uint8_t list \<Rightarrow> nat \<Rightarrow> libfsapfs_container_physical_map_entry" where
  "block_entry L data k =
     \<lparr>object_identifier =
        byte_stream_copy_to_uint64_little_endian
          (drop (40 + sizeof_fsapfs_container_physical_map_entry * k) data)
          (entry_object_identifier_offset L),
      physical_address =
        byte_stream_copy_to_uint64_little_endian
          (drop (40 + sizeof_fsapfs_container_physical_map_entry * k) data)
          (entry_physical_address_offset L)\<rparr>"


text \<open>Every allocation of the decoding loop before index \<open>n\<close> succeeds.\<close>

definition allocations_ok :: "memory \<Rightarrow> nat \<Rightarrow> bool" where
  "allocations_ok M n = (\<forall>k<n. entry_initialize_ok M k \<and> array_append_ok M k)"

subsection \<open>Example data\<close>

text \<open>
  Two layouts: one whose map structure is a whole block of 4096 bytes (the header, room
  for 101 entry records and 16 more bytes), and one whose map structure is the 40-byte
  header alone. Both read the object identifier at offset 24 and the physical address at
  offset 32 of an entry record.
\<close>

definition block_layout :: fsapfs_layout where
  "block_layout =
     \<lparr>sizeof_fsapfs_container_physical_map = 4096,
      entry_object_identifier_offset = 24,
      entry_physical_address_offset = 32\<rparr>"

definition header_layout :: fsapfs_layout where
  "header_layout =
     \<lparr>sizeof_fsapfs_container_physical_map = 40,
      entry_object_identifier_offset = 24,
      entry_physical_address_offset = 32\<rparr>"

text \<open>
  The entry record of the test program, \<^verbatim>\<open>fsapfs_test_container_physical_map_entry_data1\<close>,
  and two more records that differ from it in one byte each: \<open>entry_data2\<close> in the byte at
  offset 32, \<open>entry_data3\<close> in the bytes at offsets 24 and 32.
\<close>

definition fsapfs_test_container_physical_map_entry_data1 :: "uint8_t list" where
  "fsapfs_test_container_physical_map_entry_data1 =
     [0x05, 0x00, 0x00, 0x80, 0x00, 0x00, 0x00, 0x00, 0x00, 0x10, 0x00, 0x00, 0x00, 0x00, 0x00, 0x00,
      0x00, 0x00, 0x00, 0x00, 0x00, 0x00, 0x00, 0x00, 0x00, 0x04, 0x00, 0x00, 0x00, 0x00, 0x00, 0x00,
      0x09, 0x00, 0x00, 0x00, 0x00, 0x00, 0x00, 0x00]"

definition entry_data2 :: "uint8_t list" where
  "entry_data2 =
     [0x05, 0x00, 0x00, 0x80, 0x00, 0x00, 0x00, 0x00, 0x00, 0x10, 0x00, 0x00, 0x00, 0x00, 0x00, 0x00,
      0x00, 0x00, 0x00, 0x00, 0x00, 0x00, 0x00, 0x00, 0x00, 0x04, 0x00, 0x00, 0x00, 0x00, 0x00, 0x00,
      0x07, 0x00, 0x00, 0x00, 0x00, 0x00, 0x00, 0x00]"

definition entry_data3 :: "uint8_t list" where
  "entry_data3 =
     [0x05, 0x00, 0x00, 0x80, 0x00, 0x00, 0x00, 0x00, 0x00, 0x10, 0x00, 0x00, 0x00, 0x00, 0x00, 0x00,
      0x00, 0x00, 0x00, 0x00, 0x00, 0x00, 0x00, 0x00, 0x01, 0x04, 0x00, 0x00, 0x00, 0x00, 0x00, 0x00,
      0x07, 0x00, 0x00, 0x00, 0x00, 0x00, 0x00, 0x00]"

text \<open>
  A block header with a given object type (its lowest byte; the other three are
  \<open>00 00 40\<close>) and a given number of entries (below 256), and a block of 4096 bytes made
  of a header, entry records and zero bytes.
\<close>

definition block_header :: "uint8_t \<Rightarrow> uint8_t \<Rightarrow> uint8_t list" where
  "block_header object_type number_of_entries =
     replicate 24 0 @ [object_type, 0x00, 0x00, 0x40] @ replicate 8 0
       @ [number_of_entries, 0x00, 0x00, 0x00]"

definition block_with_two_entries :: "uint8_t list" where
  "block_with_two_entries =
     block_header 0x0c 2 @ fsapfs_test_container_physical_map_entry_data1 @ entry_data3
       @ replicate 3976 0"

definition block_with_duplicate :: "uint8_t list" where
  "block_with_duplicate =
     block_header 0x0c 2 @ fsapfs_test_container_physical_map_entry_data1 @ entry_data2
       @ replicate 3976 0"

definition block_of_wrong_type :: "uint8_t list" where
  "block_of_wrong_type =
     block_header 0x0b 2 @ fsapfs_test_container_physical_map_entry_data1 @ entry_data3
       @ replicate 3976 0"

definition block_with_102_entries :: "uint8_t list" where
  "block_with_102_entries = block_header 0x0c 102 @ replicate 4056 0"

text \<open>
  A freshly initialised map, a memory where every allocation succeeds, and one where the
  allocation of the second entry (index 1) fails.
\<close>

definition empty_map :: libfsapfs_container_physical_map where
  "empty_map = \<lparr>entries_array = Some []\<rparr>"

definition memory_ok :: memory where
  "memory_ok =
     \<lparr>memory_allocate_structure_ok = True, memory_set_ok = True,
      libcdata_array_initialize_ok = True,
      entry_initialize_ok = (\<lambda>k. True), array_append_ok = (\<lambda>k. True)\<rparr>"


text \<open>A memory that serves the 101 entries of a full block and no more.\<close>

definition memory_for_one_block :: memory where
  "memory_for_one_block =
     \<lparr>memory_allocate_structure_ok = True, memory_set_ok = True,
      libcdata_array_initialize_ok = True,
      entry_initialize_ok = (\<lambda>k. k < 101), array_append_ok = (\<lambda>k. k < 101)\<rparr>"

section \<open>Properties\<close>

declare read_map_entries.simps [simp del]
declare scan_entries.simps [simp del]

subsection \<open>Sizes\<close>

lemma wrap_minus_le:
  fixes a b K :: nat
  assumes "b \<le> a" "a < K"
  shows "(a + K - b mod K) mod K = a - b"
proof -
  have bK: "b < K" using assms by linarith
  have b: "b mod K = b" using bK by (rule mod_less)
  have e: "a + K - b = (a - b) + K" using assms by linarith
  have lt: "a - b < K" using assms by linarith
  show ?thesis by (simp only: b e mod_add_self2 mod_less [OF lt])
qed

lemma SSIZE_MAX_less: "SSIZE_MAX < 2 ^ 64"
  by (simp add: SSIZE_MAX_def)

lemma size_t_minus_le: "b \<le> a \<Longrightarrow> a \<le> SSIZE_MAX \<Longrightarrow> size_t_minus a b = a - b"
proof -
  assume h: "b \<le> a" "a \<le> SSIZE_MAX"
  have "a < 2 ^ 64" using h(2) SSIZE_MAX_less by (rule le_less_trans)
  from wrap_minus_le [OF h(1) this] show ?thesis
    unfolding size_t_minus_def .
qed

subsection \<open>The decoding loop\<close>

lemma entry_read_data_suffix:
  assumes "off + sizeof_fsapfs_container_physical_map_entry \<le> length data"
    and "length data \<le> SSIZE_MAX"
    and "off = 40 + sizeof_fsapfs_container_physical_map_entry * k"
  shows "libfsapfs_container_physical_map_entry_read_data L (Some e0) (Some (drop off data))
           (size_t_minus (length data) off) = Inr (block_entry L data k)"
proof -
  have le: "off \<le> length data" using assms(1) by linarith
  have sz: "size_t_minus (length data) off = length data - off"
    using le assms(2) by (rule size_t_minus_le)
  have a: "\<not> length data - off < sizeof_fsapfs_container_physical_map_entry"
    using assms(1) by linarith
  have b: "\<not> length data - off > SSIZE_MAX" using assms(2) by linarith
  show ?thesis
    unfolding libfsapfs_container_physical_map_entry_read_data_def sz
    using a b by (simp add: block_entry_def assms(3))
qed

lemma read_map_entries_succeeds:
  assumes "40 + sizeof_fsapfs_container_physical_map_entry * n \<le> length data"
    and "length data \<le> SSIZE_MAX"
    and "allocations_ok M n"
  shows "i \<le> n \<Longrightarrow> entries_array m = Some a \<Longrightarrow>
     read_map_entries L M data n i (40 + sizeof_fsapfs_container_physical_map_entry * i) m
       = (Inr (), m\<lparr>entries_array := Some (a @ map (\<lambda>k. Some (block_entry L data k)) [i..<n])\<rparr>)"
proof (induction "n - i" arbitrary: i m a)
  case 0
  then have "i = n" by simp
  then show ?case using 0 by (simp add: read_map_entries.simps)
next
  case (Suc d)
  then have lt: "i < n" by simp
  have "Suc i \<le> n" using lt by simp
  then have "sizeof_fsapfs_container_physical_map_entry * Suc i \<le> sizeof_fsapfs_container_physical_map_entry * n"
    by (rule mult_le_mono2)
  then have fit: "40 + sizeof_fsapfs_container_physical_map_entry * i
            + sizeof_fsapfs_container_physical_map_entry \<le> length data"
    using assms(1) by simp
  have dec: "libfsapfs_container_physical_map_entry_read_data L
               (Some \<lparr>object_identifier = 0, physical_address = 0\<rparr>)
               (Some (drop (40 + sizeof_fsapfs_container_physical_map_entry * i) data))
               (size_t_minus (length data) (40 + sizeof_fsapfs_container_physical_map_entry * i))
             = Inr (block_entry L data i)"
    using fit assms(2) by (rule entry_read_data_suffix) simp
  have ok: "entry_initialize_ok M i" "array_append_ok M i"
    using assms(3) lt by (simp_all add: allocations_ok_def)
  let ?m = "m\<lparr>entries_array := Some (a @ [Some (block_entry L data i)])\<rparr>"
  have off: "40 + sizeof_fsapfs_container_physical_map_entry * i + sizeof_fsapfs_container_physical_map_entry
             = 40 + sizeof_fsapfs_container_physical_map_entry * (Suc i)" by simp
  have step: "read_map_entries L M data n i (40 + sizeof_fsapfs_container_physical_map_entry * i) m
        = read_map_entries L M data n (Suc i)
            (40 + sizeof_fsapfs_container_physical_map_entry * (Suc i)) ?m"
    by (subst read_map_entries.simps)
       (simp add: lt ok dec libfsapfs_container_physical_map_entry_initialize_def
          libcdata_array_append_entry_def Suc.prems(2) off del: mult_Suc_right)
  have d: "d = n - Suc i" using Suc.hyps(2) by simp
  have le: "Suc i \<le> n" using lt by simp
  have arr: "entries_array ?m = Some (a @ [Some (block_entry L data i)])" by simp
  have up: "[i..<n] = i # [Suc i..<n]" using lt by (simp add: upt_conv_Cons)
  show ?case
    unfolding step Suc.hyps(1) [OF d le arr] up by simp
qed

lemma read_map_entries_errors:
  "fst (read_map_entries L M data n i off m)
     \<in> {Inr (), Inl RUNTIME_ERROR_INITIALIZE_FAILED, Inl IO_ERROR_READ_FAILED,
        Inl RUNTIME_ERROR_APPEND_FAILED}"
proof (induction L M data n i off m rule: read_map_entries.induct)
  case (1 L M data n i off m)
  show ?case
    by (subst read_map_entries.simps)
       (use 1 in \<open>auto split: option.splits sum.splits\<close>)
qed

lemma read_map_entries_appends:
  "entries_array m = Some a \<Longrightarrow>
   read_map_entries L M data n i (40 + sizeof_fsapfs_container_physical_map_entry * i) m = (r, m') \<Longrightarrow>
   \<exists>j. i \<le> j \<and> (i \<le> n \<longrightarrow> j \<le> n)
      \<and> m' = m\<lparr>entries_array := Some (a @ map (\<lambda>k. Some (block_entry L data k)) [i..<j])\<rparr>
      \<and> (r = Inr () \<longleftrightarrow> n \<le> j)"
proof (induction "n - i" arbitrary: i m a)
  case 0
  then have "\<not> i < n" by simp
  with 0 have "r = Inr ()" "m' = m" by (simp_all add: read_map_entries.simps)
  with 0 show ?case by (intro exI [of _ i]) auto
next
  case (Suc d)
  then have lt: "i < n" by simp
  show ?case
  proof (cases "entry_initialize_ok M i")
    case False
    with lt Suc.prems have "r = Inl RUNTIME_ERROR_INITIALIZE_FAILED" "m' = m"
      by (simp_all add: read_map_entries.simps libfsapfs_container_physical_map_entry_initialize_def)
    with lt Suc.prems show ?thesis by (intro exI [of _ i]) auto
  next
    case ini: True
    show ?thesis
    proof (cases "libfsapfs_container_physical_map_entry_read_data L
                    (Some \<lparr>object_identifier = 0, physical_address = 0\<rparr>)
                    (Some (drop (40 + sizeof_fsapfs_container_physical_map_entry * i) data))
                    (size_t_minus (length data) (40 + sizeof_fsapfs_container_physical_map_entry * i))")
      case (Inl e)
      with lt ini Suc.prems have "r = Inl IO_ERROR_READ_FAILED" "m' = m"
        by (simp_all add: read_map_entries.simps libfsapfs_container_physical_map_entry_initialize_def)
      with lt Suc.prems show ?thesis by (intro exI [of _ i]) auto
    next
      case (Inr e)
      then have e: "e = block_entry L data i"
        by (auto simp: libfsapfs_container_physical_map_entry_read_data_def block_entry_def
            split: if_splits)
      show ?thesis
      proof (cases "array_append_ok M i")
        case False
        with lt ini Inr Suc.prems have "r = Inl RUNTIME_ERROR_APPEND_FAILED" "m' = m"
          by (simp_all add: read_map_entries.simps libfsapfs_container_physical_map_entry_initialize_def
              libcdata_array_append_entry_def)
        with lt Suc.prems show ?thesis by (intro exI [of _ i]) auto
      next
        case True
        let ?m = "m\<lparr>entries_array := Some (a @ [Some e])\<rparr>"
        have off: "40 + sizeof_fsapfs_container_physical_map_entry * i + sizeof_fsapfs_container_physical_map_entry
                  = 40 + sizeof_fsapfs_container_physical_map_entry * (Suc i)" by simp
        from lt ini Inr True Suc.prems
        have run: "read_map_entries L M data n (Suc i)
                     (40 + sizeof_fsapfs_container_physical_map_entry * (Suc i)) ?m = (r, m')"
          by (subst (asm) read_map_entries.simps)
             (simp add: libfsapfs_container_physical_map_entry_initialize_def
                libcdata_array_append_entry_def off del: mult_Suc_right)
        have d: "d = n - Suc i" using Suc.hyps(2) by simp
        have arr: "entries_array ?m = Some (a @ [Some e])" by simp
        from Suc.hyps(1) [OF d arr run] obtain j where
          j: "Suc i \<le> j" "Suc i \<le> n \<longrightarrow> j \<le> n"
             "m' = ?m\<lparr>entries_array := Some ((a @ [Some e]) @ map (\<lambda>k. Some (block_entry L data k)) [Suc i..<j])\<rparr>"
             "(r = Inr ()) = (n \<le> j)"
          by blast
        have "[i..<j] = i # [Suc i..<j]" using j(1) by (simp add: upt_conv_Cons)
        with j e lt show ?thesis by (intro exI [of _ j]) auto
      qed
    qed
  qed
qed

subsection \<open>Entry records\<close>

lemma field_in_record:
  assumes "field_offset + 8 \<le> n"
  shows "byte_stream_copy_to_uint64_little_endian (take n xs) field_offset
       = byte_stream_copy_to_uint64_little_endian xs field_offset"
proof -
  have "min 8 (n - field_offset) = 8" using assms by linarith
  then have "take 8 (drop field_offset (take n xs)) = take 8 (drop field_offset xs)"
    by (simp add: drop_take)
  then show ?thesis by (simp add: byte_stream_copy_to_uint64_little_endian_def)
qed

lemma record_decodes_to_block_entry:
  assumes L: "layout_ok L"
    and dec: "libfsapfs_container_physical_map_entry_read_data L (Some e0)
                (Some (map_entry_record data k)) (length (map_entry_record data k)) = Inr e"
  shows "e = block_entry L data k
       \<and> 40 + sizeof_fsapfs_container_physical_map_entry * Suc k \<le> length data"
proof -
  let ?s = "sizeof_fsapfs_container_physical_map_entry"
  from dec have len: "\<not> length (map_entry_record data k) < ?s"
    by (auto simp: libfsapfs_container_physical_map_entry_read_data_def split: if_splits)
  then have fit: "40 + ?s * Suc k \<le> length data"
    by (simp add: map_entry_record_def sizeof_fsapfs_container_physical_map_entry_def)
  from L have o: "entry_object_identifier_offset L + 8 \<le> ?s"
    and p: "entry_physical_address_offset L + 8 \<le> ?s"
    by (simp_all add: layout_ok_def)
  from dec have "e = e0\<lparr>object_identifier :=
                    byte_stream_copy_to_uint64_little_endian (map_entry_record data k) (entry_object_identifier_offset L),
                  physical_address :=
                    byte_stream_copy_to_uint64_little_endian (map_entry_record data k) (entry_physical_address_offset L)\<rparr>"
    by (auto simp: libfsapfs_container_physical_map_entry_read_data_def split: if_splits)
  then have "e = block_entry L data k"
    by (simp add: map_entry_record_def field_in_record [OF o] field_in_record [OF p] block_entry_def)
  with fit show ?thesis by simp
qed

subsection \<open>The lookup loop\<close>

lemma scan_entries_map_after: "map_after (scan_entries m x n i) = Some m"
proof (induction m x n i rule: scan_entries.induct)
  case (1 m x n i)
  show ?case
    by (subst scan_entries.simps) (use 1 in \<open>auto split: option.splits\<close>)
qed

lemma scan_entries_stored:
  "(return_value (scan_entries m x n i) = 1 \<and> error (scan_entries m x n i) = None
      \<and> (\<exists>e k. libcdata_array_get_entry_by_index (entries_array m) k = Some (Some e)
             \<and> x = object_identifier e \<and> stored (scan_entries m x n i) = [physical_address e]))
   \<or> (return_value (scan_entries m x n i) = 0 \<and> error (scan_entries m x n i) = None
      \<and> stored (scan_entries m x n i) = [])
   \<or> (return_value (scan_entries m x n i) = - 1 \<and> error (scan_entries m x n i) \<noteq> None
      \<and> stored (scan_entries m x n i) = [])"
proof (induction m x n i rule: scan_entries.induct)
  case (1 m x n i)
  show ?case
    by (subst (1 2 3 4 5 6 7 8 9) scan_entries.simps) (use 1 in \<open>auto split: option.splits\<close>)
qed

lemma scan_entries_find:
  assumes "entries_array m = Some (map Some es)"
  shows "i \<le> length es \<Longrightarrow>
     scan_entries m x (length es) i =
       (case find (\<lambda>e. x = object_identifier e) (drop i es) of
          None \<Rightarrow> \<lparr>return_value = 0, error = None, stored = [], map_after = Some m\<rparr>
        | Some e \<Rightarrow> \<lparr>return_value = 1, error = None, stored = [physical_address e],
                     map_after = Some m\<rparr>)"
proof (induction "length es - i" arbitrary: i)
  case 0
  then show ?case by (simp add: scan_entries.simps)
next
  case (Suc d)
  then have lt: "i < length es" by simp
  have get: "libcdata_array_get_entry_by_index (entries_array m) i = Some (Some (es ! i))"
    using lt assms by (simp add: libcdata_array_get_entry_by_index_def)
  have dr: "drop i es = es ! i # drop (Suc i) es"
    using lt by (simp add: Cons_nth_drop_Suc)
  have d: "d = length es - Suc i" using Suc.hyps(2) by simp
  have le: "Suc i \<le> length es" using lt by simp
  show ?case
    by (subst scan_entries.simps) (simp add: lt get dr Suc.hyps(1) [OF d le])
qed

lemma find_first_index:
  assumes "k < length es"
  shows "\<exists>j\<le>k. find (\<lambda>e. f (es ! k) = f e) es = Some (es ! j)
            \<and> f (es ! j) = f (es ! k) \<and> (\<forall>i<j. f (es ! i) \<noteq> f (es ! k))"
  using assms
proof (induction es arbitrary: k)
  case Nil
  then show ?case by simp
next
  case (Cons a es)
  show ?case
  proof (cases "f ((a # es) ! k) = f a")
    case True
    then show ?thesis by (intro exI [of _ 0]) simp
  next
    case False
    then obtain k' where k: "k = Suc k'" by (cases k) auto
    with Cons.prems have "k' < length es" by simp
    from Cons.IH [OF this] obtain j where
      j: "j \<le> k'" "find (\<lambda>e. f (es ! k') = f e) es = Some (es ! j)"
         "f (es ! j) = f (es ! k')" "\<forall>i<j. f (es ! i) \<noteq> f (es ! k')"
      by blast
    have "\<forall>i<Suc j. f ((a # es) ! i) \<noteq> f ((a # es) ! k)"
      using j(4) False k by (auto simp: less_Suc_eq_0_disj)
    with j False k show ?thesis by (intro exI [of _ "Suc j"]) auto
  qed
qed

lemma find_distinct:
  assumes "distinct (map f es)" "k < length es"
  shows "find (\<lambda>e. f (es ! k) = f e) es = Some (es ! k)"
proof -
  from find_first_index [OF assms(2), of f] obtain j where
    j: "j \<le> k" "find (\<lambda>e. f (es ! k) = f e) es = Some (es ! j)" "f (es ! j) = f (es ! k)"
    by blast
  have "j < length es" using j(1) assms(2) by simp
  with assms j(3) have "j = k"
    by (metis distinct_conv_nth length_map nth_map)
  with j(2) show ?thesis by simp
qed


lemma read_map_entries_memory:
  assumes "\<forall>k<n. entry_initialize_ok M1 k = entry_initialize_ok M2 k
                \<and> array_append_ok M1 k = array_append_ok M2 k"
  shows "read_map_entries L M1 data n i off m = read_map_entries L M2 data n i off m"
proof (induction "n - i" arbitrary: i off m)
  case 0
  then have "\<not> i < n" by simp
  then show ?case
    by (subst read_map_entries.simps, subst (2) read_map_entries.simps) simp
next
  case (Suc d)
  then have lt: "i < n" and d: "d = n - Suc i" by simp_all
  have same: "entry_initialize_ok M1 i = entry_initialize_ok M2 i"
    "array_append_ok M1 i = array_append_ok M2 i"
    using assms lt by simp_all
  show ?case
    by (subst read_map_entries.simps, subst (2) read_map_entries.simps)
       (simp add: same Suc.hyps(1) [OF d] split: option.splits sum.splits)
qed

subsection \<open>The decoder as a whole\<close>

lemma read_data_checked:
  assumes "sizeof_fsapfs_container_physical_map L \<le> length data" "length data \<le> SSIZE_MAX"
    and "byte_stream_copy_to_uint32_little_endian data object_type_offset = 0x4000000c"
    and "byte_stream_copy_to_uint32_little_endian data number_of_entries_offset \<le> 101"
  shows "libfsapfs_container_physical_map_read_data L M (Some m) (Some data) =
     (fst (read_map_entries L M data
             (unat (byte_stream_copy_to_uint32_little_endian data number_of_entries_offset)) 0 40 m),
      Some (snd (read_map_entries L M data
             (unat (byte_stream_copy_to_uint32_little_endian data number_of_entries_offset)) 0 40 m)))"
proof -
  have "\<not> 101 < byte_stream_copy_to_uint32_little_endian data number_of_entries_offset"
    using assms(4) by (simp add: not_less)
  then show ?thesis
    using assms(1-3)
    by (simp add: libfsapfs_container_physical_map_read_data_def split: prod.splits)
qed

lemma read_data_cases:
  assumes "libfsapfs_container_physical_map_read_data L M (Some m) (Some data) = (r, cm)"
  shows "(cm = Some m
          \<and> (r = Inl RUNTIME_ERROR_VALUE_OUT_OF_BOUNDS \<or> r = Inl RUNTIME_ERROR_UNSUPPORTED_VALUE))
       \<or> (\<exists>m'. cm = Some m'
            \<and> unat (byte_stream_copy_to_uint32_little_endian data number_of_entries_offset) \<le> 101
            \<and> read_map_entries L M data
                 (unat (byte_stream_copy_to_uint32_little_endian data number_of_entries_offset))
                 0 (40 + sizeof_fsapfs_container_physical_map_entry * 0) m = (r, m'))"
proof -
  have w: "\<not> 101 < byte_stream_copy_to_uint32_little_endian data number_of_entries_offset \<Longrightarrow>
           unat (byte_stream_copy_to_uint32_little_endian data number_of_entries_offset) \<le> 101"
    by (simp add: not_less word_le_nat_alt)
  show ?thesis
    using assms w
    by (auto simp: libfsapfs_container_physical_map_read_data_def
        split: if_splits prod.splits)
qed

lemma initialize_fresh:
  assumes "libfsapfs_container_physical_map_initialize M (Some None) = (Inr (), Some (Some m))"
  shows "m = \<lparr>entries_array = Some []\<rparr>"
  using assms
  by (auto simp: libfsapfs_container_physical_map_initialize_def split: if_splits)

lemma read_valid_block:
  assumes L: "layout_ok L"
    and size: "sizeof_fsapfs_container_physical_map L \<le> length data" "length data \<le> SSIZE_MAX"
    and tag: "byte_stream_copy_to_uint32_little_endian data object_type_offset = 0x4000000c"
    and count: "unat (byte_stream_copy_to_uint32_little_endian data number_of_entries_offset)
                  = length es"
    and ceiling: "length es \<le> 101"
    and recs: "\<forall>k<length es.
        libfsapfs_container_physical_map_entry_read_data L
          (libfsapfs_container_physical_map_entry_initialize True)
          (Some (map_entry_record data k)) (length (map_entry_record data k)) = Inr (es ! k)"
    and mem: "allocations_ok M (length es)"
    and arr: "entries_array m = Some a"
  shows "libfsapfs_container_physical_map_read_data L M (Some m) (Some data)
           = (Inr (), Some (m\<lparr>entries_array := Some (a @ map Some es)\<rparr>))"
proof -
  let ?s = "sizeof_fsapfs_container_physical_map_entry"
  let ?n = "byte_stream_copy_to_uint32_little_endian data number_of_entries_offset"
  have each: "es ! k = block_entry L data k \<and> 40 + ?s * Suc k \<le> length data"
    if "k < length es" for k
  proof -
    from recs that have
      "libfsapfs_container_physical_map_entry_read_data L
          (Some \<lparr>object_identifier = 0, physical_address = 0\<rparr>)
          (Some (map_entry_record data k)) (length (map_entry_record data k)) = Inr (es ! k)"
      by (simp add: libfsapfs_container_physical_map_entry_initialize_def)
    from record_decodes_to_block_entry [OF L this] show ?thesis .
  qed
  have fit: "40 + ?s * length es \<le> length data"
  proof (cases "length es")
    case 0
    with L size show ?thesis by (simp add: layout_ok_def)
  next
    case (Suc k)
    with each [of k] show ?thesis by simp
  qed
  have le: "?n \<le> 101"
    using count ceiling by (simp add: word_le_nat_alt)
  have es: "map (\<lambda>k. Some (block_entry L data k)) [0..<length es] = map Some es"
    using each by (intro nth_equalityI) simp_all
  have "read_map_entries L M data (length es) 0 (40 + ?s * 0) m
          = (Inr (), m\<lparr>entries_array := Some (a @ map Some es)\<rparr>)"
    using read_map_entries_succeeds [OF fit size(2) mem _ arr, of 0 L] es by simp
  then show ?thesis
    by (simp add: read_data_checked [OF size tag le] count)
qed

subsection \<open>The lookup as a whole\<close>

lemma scan_entries_output:
  "(let r = scan_entries m identifier n 0
    in (return_value r = 1 \<or> return_value r = 0 \<or> return_value r = - 1)
       \<and> (return_value r = 1) = (stored r \<noteq> [])
       \<and> (return_value r \<noteq> 1 \<longrightarrow> location_after v (stored r) = v)
       \<and> (return_value r = 1 \<longrightarrow>
            (\<exists>e k. libcdata_array_get_entry_by_index (entries_array m) k = Some (Some e)
               \<and> identifier = object_identifier e
               \<and> stored r = [physical_address e]
               \<and> location_after v (stored r) = physical_address e)))"
  using scan_entries_stored [of m "identifier" n 0] unfolding Let_def
  by (auto simp: location_after_def)

lemma lookup_in_decoded:
  assumes "entries_array m = Some (map Some es)"
  shows "libfsapfs_container_physical_map_get_physical_address_by_object_identifier
           (Some m) x (Some v)
         = (case find (\<lambda>e. x = object_identifier e) es of
              None \<Rightarrow> \<lparr>return_value = 0, error = None, stored = [], map_after = Some m\<rparr>
            | Some e \<Rightarrow> \<lparr>return_value = 1, error = None, stored = [physical_address e],
                         map_after = Some m\<rparr>)"
  using scan_entries_find [OF assms, of 0 x] assms
  by (simp add: libfsapfs_container_physical_map_get_physical_address_by_object_identifier_def
      libcdata_array_get_number_of_entries_def)

subsection \<open>The examples evaluated\<close>

lemmas decoder_defs =
  libfsapfs_container_physical_map_read_data_def SSIZE_MAX_def
  byte_stream_copy_to_uint32_little_endian_def byte_stream_copy_to_uint64_little_endian_def
  object_type_offset_def number_of_entries_offset_def
  libfsapfs_container_physical_map_entry_initialize_def
  libfsapfs_container_physical_map_entry_read_data_def
  libcdata_array_append_entry_def sizeof_fsapfs_container_physical_map_entry_def
  size_t_minus_def read_map_entries.simps

lemmas lookup_defs =
  libfsapfs_container_physical_map_get_physical_address_by_object_identifier_def
  libcdata_array_get_number_of_entries_def libcdata_array_get_entry_by_index_def
  scan_entries.simps

lemma block_layout_ok: "layout_ok block_layout"
  by (simp add: layout_ok_def block_layout_def sizeof_fsapfs_container_physical_map_entry_def)

lemma initialize_memory_ok:
  "libfsapfs_container_physical_map_initialize memory_ok (Some None)
     = (Inr (), Some (Some empty_map))"
  by (simp add: libfsapfs_container_physical_map_initialize_def memory_ok_def empty_map_def)

lemma initialize_memory_for_one_block:
  "libfsapfs_container_physical_map_initialize memory_for_one_block (Some None)
     = (Inr (), Some (Some empty_map))"
  by (simp add: libfsapfs_container_physical_map_initialize_def memory_for_one_block_def
      empty_map_def)

lemma allocations_memory_ok: "allocations_ok memory_ok n"
  by (simp add: allocations_ok_def memory_ok_def)

lemma block_with_two_entries_facts:
  "length block_with_two_entries = 4096"
  "byte_stream_copy_to_uint32_little_endian block_with_two_entries object_type_offset = 0x4000000c"
  "byte_stream_copy_to_uint32_little_endian block_with_two_entries number_of_entries_offset = 2"
  by (simp_all add: block_with_two_entries_def block_header_def fsapfs_test_container_physical_map_entry_data1_def entry_data3_def decoder_defs)

lemma records_of_block_with_two_entries:
  "libfsapfs_container_physical_map_entry_read_data block_layout
     (libfsapfs_container_physical_map_entry_initialize True)
     (Some (map_entry_record block_with_two_entries 0))
     (length (map_entry_record block_with_two_entries 0))
   = Inr \<lparr>object_identifier = 0x400, physical_address = 9\<rparr>"
  "libfsapfs_container_physical_map_entry_read_data block_layout
     (libfsapfs_container_physical_map_entry_initialize True)
     (Some (map_entry_record block_with_two_entries 1))
     (length (map_entry_record block_with_two_entries 1))
   = Inr \<lparr>object_identifier = 0x401, physical_address = 7\<rparr>"
  by (simp_all add: block_with_two_entries_def block_header_def fsapfs_test_container_physical_map_entry_data1_def entry_data3_def block_layout_def decoder_defs map_entry_record_def)

lemma read_block_with_two_entries:
  "libfsapfs_container_physical_map_read_data block_layout memory_ok (Some empty_map)
     (Some block_with_two_entries)
   = (Inr (), Some \<lparr>entries_array = Some
        [Some \<lparr>object_identifier = 0x400, physical_address = 9\<rparr>,
         Some \<lparr>object_identifier = 0x401, physical_address = 7\<rparr>]\<rparr>)"
  by (simp add: block_with_two_entries_def block_header_def fsapfs_test_container_physical_map_entry_data1_def entry_data3_def block_layout_def memory_ok_def empty_map_def decoder_defs)

lemma read_block_with_two_entries_one_block:
  "libfsapfs_container_physical_map_read_data block_layout memory_for_one_block (Some empty_map)
     (Some block_with_two_entries)
   = (Inr (), Some \<lparr>entries_array = Some
        [Some \<lparr>object_identifier = 0x400, physical_address = 9\<rparr>,
         Some \<lparr>object_identifier = 0x401, physical_address = 7\<rparr>]\<rparr>)"
  by (simp add: block_with_two_entries_def block_header_def fsapfs_test_container_physical_map_entry_data1_def entry_data3_def block_layout_def memory_for_one_block_def empty_map_def decoder_defs)

lemma block_of_wrong_type_facts:
  "length block_of_wrong_type = 4096"
  "byte_stream_copy_to_uint32_little_endian block_of_wrong_type object_type_offset = 0x4000000b"
  by (simp_all add: block_of_wrong_type_def block_header_def fsapfs_test_container_physical_map_entry_data1_def entry_data3_def decoder_defs)

lemma block_with_102_entries_facts:
  "length block_with_102_entries = 4096"
  "byte_stream_copy_to_uint32_little_endian block_with_102_entries object_type_offset = 0x4000000c"
  "byte_stream_copy_to_uint32_little_endian block_with_102_entries number_of_entries_offset = 102"
  by (simp_all add: block_with_102_entries_def block_header_def decoder_defs)


lemma block_with_duplicate_facts:
  "length block_with_duplicate = 4096"
  "byte_stream_copy_to_uint32_little_endian block_with_duplicate object_type_offset = 0x4000000c"
  "byte_stream_copy_to_uint32_little_endian block_with_duplicate number_of_entries_offset = 2"
  by (simp_all add: block_with_duplicate_def block_header_def fsapfs_test_container_physical_map_entry_data1_def entry_data2_def decoder_defs)

lemma records_of_block_with_duplicate:
  "libfsapfs_container_physical_map_entry_read_data block_layout
     (libfsapfs_container_physical_map_entry_initialize True)
     (Some (map_entry_record block_with_duplicate 0))
     (length (map_entry_record block_with_duplicate 0))
   = Inr \<lparr>object_identifier = 0x400, physical_address = 9\<rparr>"
  "libfsapfs_container_physical_map_entry_read_data block_layout
     (libfsapfs_container_physical_map_entry_initialize True)
     (Some (map_entry_record block_with_duplicate 1))
     (length (map_entry_record block_with_duplicate 1))
   = Inr \<lparr>object_identifier = 0x400, physical_address = 7\<rparr>"
  by (simp_all add: block_with_duplicate_def block_header_def fsapfs_test_container_physical_map_entry_data1_def entry_data2_def block_layout_def decoder_defs map_entry_record_def)

lemma read_block_with_duplicate:
  "libfsapfs_container_physical_map_read_data block_layout memory_ok (Some empty_map)
     (Some block_with_duplicate)
   = (Inr (), Some \<lparr>entries_array = Some
        [Some \<lparr>object_identifier = 0x400, physical_address = 9\<rparr>,
         Some \<lparr>object_identifier = 0x400, physical_address = 7\<rparr>]\<rparr>)"
  "libfsapfs_container_physical_map_read_data header_layout memory_ok (Some empty_map)
     (Some block_with_duplicate)
   = (Inr (), Some \<lparr>entries_array = Some
        [Some \<lparr>object_identifier = 0x400, physical_address = 9\<rparr>,
         Some \<lparr>object_identifier = 0x400, physical_address = 7\<rparr>]\<rparr>)"
  by (simp_all add: block_with_duplicate_def block_header_def fsapfs_test_container_physical_map_entry_data1_def entry_data2_def block_layout_def header_layout_def memory_ok_def empty_map_def decoder_defs)

lemma lookup_in_duplicate:
  "libfsapfs_container_physical_map_get_physical_address_by_object_identifier
     (Some \<lparr>entries_array = Some
        [Some \<lparr>object_identifier = 0x400, physical_address = 9\<rparr>,
         Some \<lparr>object_identifier = 0x400, physical_address = 7\<rparr>]\<rparr>) 0x400 (Some 0)
   = \<lparr>return_value = 1, error = None, stored = [9], map_after = Some \<lparr>entries_array = Some
        [Some \<lparr>object_identifier = 0x400, physical_address = 9\<rparr>,
         Some \<lparr>object_identifier = 0x400, physical_address = 7\<rparr>]\<rparr>\<rparr>"
  by (simp add: lookup_defs)



lemma lookup_in_two_entries:
  "libfsapfs_container_physical_map_get_physical_address_by_object_identifier
     (Some \<lparr>entries_array = Some
        [Some \<lparr>object_identifier = 0x400, physical_address = 9\<rparr>,
         Some \<lparr>object_identifier = 0x401, physical_address = 7\<rparr>]\<rparr>) 0x401 (Some 0)
   = \<lparr>return_value = 1, error = None, stored = [7], map_after = Some \<lparr>entries_array = Some
        [Some \<lparr>object_identifier = 0x400, physical_address = 9\<rparr>,
         Some \<lparr>object_identifier = 0x401, physical_address = 7\<rparr>]\<rparr>\<rparr>"
  "libfsapfs_container_physical_map_get_physical_address_by_object_identifier
     (Some \<lparr>entries_array = Some
        [Some \<lparr>object_identifier = 0x400, physical_address = 9\<rparr>,
         Some \<lparr>object_identifier = 0x401, physical_address = 7\<rparr>]\<rparr>) 0x400 (Some 0)
   = \<lparr>return_value = 1, error = None, stored = [9], map_after = Some \<lparr>entries_array = Some
        [Some \<lparr>object_identifier = 0x400, physical_address = 9\<rparr>,
         Some \<lparr>object_identifier = 0x401, physical_address = 7\<rparr>]\<rparr>\<rparr>"
  "libfsapfs_container_physical_map_get_physical_address_by_object_identifier
     (Some \<lparr>entries_array = Some
        [Some \<lparr>object_identifier = 0x400, physical_address = 9\<rparr>,
         Some \<lparr>object_identifier = 0x401, physical_address = 7\<rparr>]\<rparr>) 0x402 (Some 0)
   = \<lparr>return_value = 0, error = None, stored = [], map_after = Some \<lparr>entries_array = Some
        [Some \<lparr>object_identifier = 0x400, physical_address = 9\<rparr>,
         Some \<lparr>object_identifier = 0x401, physical_address = 7\<rparr>]\<rparr>\<rparr>"
  "libfsapfs_container_physical_map_get_physical_address_by_object_identifier
     (Some \<lparr>entries_array = Some
        [Some \<lparr>object_identifier = 0x400, physical_address = 9\<rparr>, None,
         Some \<lparr>object_identifier = 0x401, physical_address = 7\<rparr>]\<rparr>) 0x401 (Some 0)
   = \<lparr>return_value = - 1, error = Some RUNTIME_ERROR_VALUE_MISSING, stored = [],
      map_after = Some \<lparr>entries_array = Some
        [Some \<lparr>object_identifier = 0x400, physical_address = 9\<rparr>, None,
         Some \<lparr>object_identifier = 0x401, physical_address = 7\<rparr>]\<rparr>\<rparr>"
  by (simp_all add: lookup_defs)

section \<open>The claims\<close>

text \<open>
  In the theorems below a valid block is a buffer at least as long as the map structure
  and at most \<^verbatim>\<open>SSIZE_MAX\<close> bytes long, whose object type is \<open>0x4000000c\<close>. The entries
  of a block are what the entry decoder returns on its entry records, each record taken
  alone as the test program of the entry does. Where a theorem says that decoding
  succeeds, the allocations of the loop are assumed to succeed (\<open>allocations_ok\<close>): the
  code fails with an initialisation or append error when one does not.
\<close>

subsection \<open>C1: decoding, then looking every entry up\<close>

text \<open>
  Claim C1. For a valid block whose number of entries \<open>N\<close> is at most 101, whose \<open>N\<close> entry
  records decode to entries with pairwise distinct object identifiers, decoding into a
  freshly initialised map succeeds, the map then holds these entries in their order on
  disk, and the lookup of each entry's object identifier returns 1, sets no error and
  stores exactly that entry's physical address through the caller's pointer.
\<close>

theorem physical_map_round_trip:
  assumes "layout_ok L"
    and "libfsapfs_container_physical_map_initialize M0 (Some None) = (Inr (), Some (Some m0))"
    and "sizeof_fsapfs_container_physical_map L \<le> length data"
    and "length data \<le> SSIZE_MAX"
    and "byte_stream_copy_to_uint32_little_endian data object_type_offset = 0x4000000c"
    and "unat (byte_stream_copy_to_uint32_little_endian data number_of_entries_offset) = length es"
    and "length es \<le> 101"
    and "\<forall>k<length es.
        libfsapfs_container_physical_map_entry_read_data L
          (libfsapfs_container_physical_map_entry_initialize True)
          (Some (map_entry_record data k)) (length (map_entry_record data k)) = Inr (es ! k)"
    and "distinct (map object_identifier es)"
    and "allocations_ok M (length es)"
  shows "\<exists>m. libfsapfs_container_physical_map_read_data L M (Some m0) (Some data) = (Inr (), Some m)
           \<and> entries_array m = Some (map Some es)
           \<and> (\<forall>k<length es.
                 libfsapfs_container_physical_map_get_physical_address_by_object_identifier
                   (Some m) (object_identifier (es ! k)) (Some v)
                 = \<lparr>return_value = 1, error = None, stored = [physical_address (es ! k)],
                    map_after = Some m\<rparr>)"
proof -
  let ?m = "\<lparr>entries_array = Some (map Some es)\<rparr>"
  have m0: "m0 = \<lparr>entries_array = Some []\<rparr>"
    using assms(2) by (rule initialize_fresh)
  then have arr0: "entries_array m0 = Some []" by simp
  have run: "libfsapfs_container_physical_map_read_data L M (Some m0) (Some data) = (Inr (), Some ?m)"
    using read_valid_block [OF assms(1,3-8,10) arr0] m0 by simp
  have arr: "entries_array ?m = Some (map Some es)" by simp
  have "libfsapfs_container_physical_map_get_physical_address_by_object_identifier
          (Some ?m) (object_identifier (es ! k)) (Some v)
        = \<lparr>return_value = 1, error = None, stored = [physical_address (es ! k)],
           map_after = Some ?m\<rparr>" if "k < length es" for k
    using find_distinct [OF assms(9) that]
    by (simp add: lookup_in_decoded [OF arr])
  with run arr show ?thesis by blast
qed

text \<open>
  A block of 4096 bytes with two entries: the record of the test program (object identifier
  \<open>0x400\<close>, physical address 9) and a record with object identifier \<open>0x401\<close> and
  physical address 7.
\<close>

theorem physical_map_round_trip_witness:
  "layout_ok block_layout
   \<and> libfsapfs_container_physical_map_initialize memory_ok (Some None)
       = (Inr (), Some (Some empty_map))
   \<and> sizeof_fsapfs_container_physical_map block_layout \<le> length block_with_two_entries
   \<and> length block_with_two_entries \<le> SSIZE_MAX
   \<and> byte_stream_copy_to_uint32_little_endian block_with_two_entries object_type_offset = 0x4000000c
   \<and> unat (byte_stream_copy_to_uint32_little_endian block_with_two_entries number_of_entries_offset) = 2
   \<and> libfsapfs_container_physical_map_entry_read_data block_layout
        (libfsapfs_container_physical_map_entry_initialize True)
        (Some (map_entry_record block_with_two_entries 0))
        (length (map_entry_record block_with_two_entries 0))
       = Inr \<lparr>object_identifier = 0x400, physical_address = 9\<rparr>
   \<and> libfsapfs_container_physical_map_entry_read_data block_layout
        (libfsapfs_container_physical_map_entry_initialize True)
        (Some (map_entry_record block_with_two_entries 1))
        (length (map_entry_record block_with_two_entries 1))
       = Inr \<lparr>object_identifier = 0x401, physical_address = 7\<rparr>
   \<and> distinct (map object_identifier
        [\<lparr>object_identifier = 0x400, physical_address = 9\<rparr>,
         \<lparr>object_identifier = 0x401, physical_address = 7\<rparr>])
   \<and> allocations_ok memory_ok 2
   \<and> (\<exists>m. libfsapfs_container_physical_map_read_data block_layout memory_ok (Some empty_map)
             (Some block_with_two_entries) = (Inr (), Some m)
          \<and> libfsapfs_container_physical_map_get_physical_address_by_object_identifier
               (Some m) 0x400 (Some 0)
             = \<lparr>return_value = 1, error = None, stored = [9], map_after = Some m\<rparr>
          \<and> libfsapfs_container_physical_map_get_physical_address_by_object_identifier
               (Some m) 0x401 (Some 0)
             = \<lparr>return_value = 1, error = None, stored = [7], map_after = Some m\<rparr>)"
proof -
  let ?es = "[\<lparr>object_identifier = 0x400, physical_address = 9\<rparr>,
              \<lparr>object_identifier = 0x401, physical_address = (7::uint64_t)\<rparr>]"
  have size: "sizeof_fsapfs_container_physical_map block_layout \<le> length block_with_two_entries"
    "length block_with_two_entries \<le> SSIZE_MAX"
    by (simp_all add: block_with_two_entries_facts block_layout_def SSIZE_MAX_def)
  have count: "unat (byte_stream_copy_to_uint32_little_endian block_with_two_entries
                 number_of_entries_offset) = length ?es"
    by (simp add: block_with_two_entries_facts)
  have ceiling: "length ?es \<le> 101" by simp
  have recs: "\<forall>k<length ?es.
        libfsapfs_container_physical_map_entry_read_data block_layout
          (libfsapfs_container_physical_map_entry_initialize True)
          (Some (map_entry_record block_with_two_entries k))
          (length (map_entry_record block_with_two_entries k)) = Inr (?es ! k)"
    using records_of_block_with_two_entries by (auto simp: less_Suc_eq)
  have dist: "distinct (map object_identifier ?es)" by simp
  from physical_map_round_trip
    [OF block_layout_ok initialize_memory_ok size block_with_two_entries_facts(2) count ceiling
        recs dist allocations_memory_ok, of 0]
  obtain m where m:
    "libfsapfs_container_physical_map_read_data block_layout memory_ok (Some empty_map)
       (Some block_with_two_entries) = (Inr (), Some m)"
    "\<forall>k<length ?es.
       libfsapfs_container_physical_map_get_physical_address_by_object_identifier
         (Some m) (object_identifier (?es ! k)) (Some 0)
       = \<lparr>return_value = 1, error = None, stored = [physical_address (?es ! k)],
          map_after = Some m\<rparr>"
    by blast
  from m(2) have
    "libfsapfs_container_physical_map_get_physical_address_by_object_identifier
       (Some m) 0x400 (Some 0)
     = \<lparr>return_value = 1, error = None, stored = [9], map_after = Some m\<rparr>"
    "libfsapfs_container_physical_map_get_physical_address_by_object_identifier
       (Some m) 0x401 (Some 0)
     = \<lparr>return_value = 1, error = None, stored = [7], map_after = Some m\<rparr>"
    by (auto simp: less_Suc_eq)
  with m(1) have "\<exists>m. libfsapfs_container_physical_map_read_data block_layout memory_ok
             (Some empty_map) (Some block_with_two_entries) = (Inr (), Some m)
          \<and> libfsapfs_container_physical_map_get_physical_address_by_object_identifier
               (Some m) 0x400 (Some 0)
             = \<lparr>return_value = 1, error = None, stored = [9], map_after = Some m\<rparr>
          \<and> libfsapfs_container_physical_map_get_physical_address_by_object_identifier
               (Some m) 0x401 (Some 0)
             = \<lparr>return_value = 1, error = None, stored = [7], map_after = Some m\<rparr>"
    by blast
  then show ?thesis
    using block_layout_ok initialize_memory_ok size block_with_two_entries_facts
      records_of_block_with_two_entries allocations_memory_ok [of 2]
    by simp
qed

subsection \<open>C2: the object type\<close>

text \<open>
  Claim C2. For a buffer of sufficient size (at least the size of the map structure, at
  most \<^verbatim>\<open>SSIZE_MAX\<close>) whose little-endian 32-bit object type at offset 24 is not
  \<open>0x4000000c\<close>, the decoder fails with the unsupported-value error, the
  \<open>UnsupportedType\<close> of the specification, and leaves the map as it was; and when the
  object type is \<open>0x4000000c\<close> the decoder does not fail with that error, whatever
  else the buffer holds.
\<close>

theorem object_type_check:
  assumes "sizeof_fsapfs_container_physical_map L \<le> length data"
    and "length data \<le> SSIZE_MAX"
  shows "(byte_stream_copy_to_uint32_little_endian data object_type_offset \<noteq> 0x4000000c \<longrightarrow>
            libfsapfs_container_physical_map_read_data L M (Some m) (Some data)
              = (Inl RUNTIME_ERROR_UNSUPPORTED_VALUE, Some m))
       \<and> (byte_stream_copy_to_uint32_little_endian data object_type_offset = 0x4000000c \<longrightarrow>
            fst (libfsapfs_container_physical_map_read_data L M (Some m) (Some data))
              \<noteq> Inl RUNTIME_ERROR_UNSUPPORTED_VALUE)
       \<and> error_kind_of RUNTIME_ERROR_UNSUPPORTED_VALUE = Some UnsupportedType"
proof (intro conjI impI)
  assume "byte_stream_copy_to_uint32_little_endian data object_type_offset \<noteq> 0x4000000c"
  then show "libfsapfs_container_physical_map_read_data L M (Some m) (Some data)
              = (Inl RUNTIME_ERROR_UNSUPPORTED_VALUE, Some m)"
    using assms by (simp add: libfsapfs_container_physical_map_read_data_def)
next
  assume tag: "byte_stream_copy_to_uint32_little_endian data object_type_offset = 0x4000000c"
  show "fst (libfsapfs_container_physical_map_read_data L M (Some m) (Some data))
          \<noteq> Inl RUNTIME_ERROR_UNSUPPORTED_VALUE"
  proof (cases "byte_stream_copy_to_uint32_little_endian data number_of_entries_offset \<le> 101")
    case True
    have "fst (read_map_entries L M data
             (unat (byte_stream_copy_to_uint32_little_endian data number_of_entries_offset)) 0 40 m)
          \<noteq> Inl RUNTIME_ERROR_UNSUPPORTED_VALUE"
      using read_map_entries_errors
        [of L M data "unat (byte_stream_copy_to_uint32_little_endian data number_of_entries_offset)" 0 40 m]
      by auto
    then show ?thesis by (simp add: read_data_checked [OF assms tag True])
  next
    case False
    then have "101 < byte_stream_copy_to_uint32_little_endian data number_of_entries_offset"
      by (simp add: not_le)
    then show ?thesis
      using assms tag by (simp add: libfsapfs_container_physical_map_read_data_def)
  qed
next
  show "error_kind_of RUNTIME_ERROR_UNSUPPORTED_VALUE = Some UnsupportedType" by simp
qed

text \<open>A block of the wrong type \<open>0x4000000b\<close>, and a block of the right type.\<close>

theorem object_type_check_witness:
  "sizeof_fsapfs_container_physical_map block_layout \<le> length block_of_wrong_type
   \<and> length block_of_wrong_type \<le> SSIZE_MAX
   \<and> byte_stream_copy_to_uint32_little_endian block_of_wrong_type object_type_offset \<noteq> 0x4000000c
   \<and> libfsapfs_container_physical_map_read_data block_layout memory_ok (Some empty_map)
         (Some block_of_wrong_type) = (Inl RUNTIME_ERROR_UNSUPPORTED_VALUE, Some empty_map)
   \<and> sizeof_fsapfs_container_physical_map block_layout \<le> length block_with_two_entries
   \<and> length block_with_two_entries \<le> SSIZE_MAX
   \<and> byte_stream_copy_to_uint32_little_endian block_with_two_entries object_type_offset = 0x4000000c
   \<and> fst (libfsapfs_container_physical_map_read_data block_layout memory_ok (Some empty_map)
         (Some block_with_two_entries)) \<noteq> Inl RUNTIME_ERROR_UNSUPPORTED_VALUE"
proof -
  have a: "sizeof_fsapfs_container_physical_map block_layout \<le> length block_of_wrong_type"
    and b: "length block_of_wrong_type \<le> SSIZE_MAX"
    by (simp_all add: block_of_wrong_type_facts block_layout_def SSIZE_MAX_def)
  have c: "sizeof_fsapfs_container_physical_map block_layout \<le> length block_with_two_entries"
    and d: "length block_with_two_entries \<le> SSIZE_MAX"
    by (simp_all add: block_with_two_entries_facts block_layout_def SSIZE_MAX_def)
  have t: "byte_stream_copy_to_uint32_little_endian block_of_wrong_type object_type_offset \<noteq> 0x4000000c"
    by (simp add: block_of_wrong_type_facts)
  show ?thesis
    using a b c d t
      object_type_check [OF a b, of memory_ok empty_map]
      object_type_check [OF c d, of memory_ok empty_map]
    by (simp add: block_with_two_entries_facts)
qed

subsection \<open>C3: the ceiling of the number of entries\<close>

text \<open>
  Claim C3. For a buffer of sufficient size with the object type \<open>0x4000000c\<close> whose
  little-endian 32-bit number of entries at offset 36 is above 101, the decoder fails with
  the value-out-of-bounds error, the \<open>OutOfBounds\<close> of the specification, and the map is
  as it was: no entry has been decoded. With a number of entries of at most 101 the
  decoder does not fail with that error.
\<close>

theorem number_of_entries_ceiling:
  assumes "sizeof_fsapfs_container_physical_map L \<le> length data"
    and "length data \<le> SSIZE_MAX"
    and "byte_stream_copy_to_uint32_little_endian data object_type_offset = 0x4000000c"
  shows "(101 < byte_stream_copy_to_uint32_little_endian data number_of_entries_offset \<longrightarrow>
            libfsapfs_container_physical_map_read_data L M (Some m) (Some data)
              = (Inl RUNTIME_ERROR_VALUE_OUT_OF_BOUNDS, Some m))
       \<and> (byte_stream_copy_to_uint32_little_endian data number_of_entries_offset \<le> 101 \<longrightarrow>
            fst (libfsapfs_container_physical_map_read_data L M (Some m) (Some data))
              \<noteq> Inl RUNTIME_ERROR_VALUE_OUT_OF_BOUNDS)
       \<and> error_kind_of RUNTIME_ERROR_VALUE_OUT_OF_BOUNDS = Some OutOfBounds"
proof (intro conjI impI)
  assume "101 < byte_stream_copy_to_uint32_little_endian data number_of_entries_offset"
  then show "libfsapfs_container_physical_map_read_data L M (Some m) (Some data)
              = (Inl RUNTIME_ERROR_VALUE_OUT_OF_BOUNDS, Some m)"
    using assms by (simp add: libfsapfs_container_physical_map_read_data_def)
next
  assume le: "byte_stream_copy_to_uint32_little_endian data number_of_entries_offset \<le> 101"
  have "fst (read_map_entries L M data
           (unat (byte_stream_copy_to_uint32_little_endian data number_of_entries_offset)) 0 40 m)
        \<noteq> Inl RUNTIME_ERROR_VALUE_OUT_OF_BOUNDS"
    using read_map_entries_errors
      [of L M data "unat (byte_stream_copy_to_uint32_little_endian data number_of_entries_offset)" 0 40 m]
    by auto
  then show "fst (libfsapfs_container_physical_map_read_data L M (Some m) (Some data))
          \<noteq> Inl RUNTIME_ERROR_VALUE_OUT_OF_BOUNDS"
    by (simp add: read_data_checked [OF assms le])
next
  show "error_kind_of RUNTIME_ERROR_VALUE_OUT_OF_BOUNDS = Some OutOfBounds" by simp
qed

text \<open>A block that declares 102 entries, and a block that declares two.\<close>

theorem number_of_entries_ceiling_witness:
  "sizeof_fsapfs_container_physical_map block_layout \<le> length block_with_102_entries
   \<and> length block_with_102_entries \<le> SSIZE_MAX
   \<and> byte_stream_copy_to_uint32_little_endian block_with_102_entries object_type_offset = 0x4000000c
   \<and> 101 < byte_stream_copy_to_uint32_little_endian block_with_102_entries number_of_entries_offset
   \<and> libfsapfs_container_physical_map_read_data block_layout memory_ok (Some empty_map)
         (Some block_with_102_entries) = (Inl RUNTIME_ERROR_VALUE_OUT_OF_BOUNDS, Some empty_map)
   \<and> sizeof_fsapfs_container_physical_map block_layout \<le> length block_with_two_entries
   \<and> length block_with_two_entries \<le> SSIZE_MAX
   \<and> byte_stream_copy_to_uint32_little_endian block_with_two_entries object_type_offset = 0x4000000c
   \<and> byte_stream_copy_to_uint32_little_endian block_with_two_entries number_of_entries_offset \<le> 101
   \<and> fst (libfsapfs_container_physical_map_read_data block_layout memory_ok (Some empty_map)
         (Some block_with_two_entries)) \<noteq> Inl RUNTIME_ERROR_VALUE_OUT_OF_BOUNDS"
proof -
  have a: "sizeof_fsapfs_container_physical_map block_layout \<le> length block_with_102_entries"
    and b: "length block_with_102_entries \<le> SSIZE_MAX"
    by (simp_all add: block_with_102_entries_facts block_layout_def SSIZE_MAX_def)
  have c: "sizeof_fsapfs_container_physical_map block_layout \<le> length block_with_two_entries"
    and d: "length block_with_two_entries \<le> SSIZE_MAX"
    by (simp_all add: block_with_two_entries_facts block_layout_def SSIZE_MAX_def)
  show ?thesis
    using a b c d
      number_of_entries_ceiling [OF a b block_with_102_entries_facts(2), of memory_ok empty_map]
      number_of_entries_ceiling [OF c d block_with_two_entries_facts(2), of memory_ok empty_map]
    by (simp add: block_with_two_entries_facts block_with_102_entries_facts)
qed

subsection \<open>C4: a buffer that is too short\<close>

text \<open>
  Claim C4 says that a buffer shorter than 40 bytes is rejected with a \<open>Truncated\<close> error.
  The code rejects it, but with the value-out-of-bounds error of the runtime domain: the
  error is the one that a number of entries above 101 gives, which is \<open>OutOfBounds\<close> and
  not \<open>Truncated\<close>. A buffer of 39 zero bytes shows it, with the map structure as large as
  a block and with the map structure as large as the header.
\<close>

theorem short_buffer_counterexample:
  "length (replicate 39 (0::uint8_t)) < 40
   \<and> libfsapfs_container_physical_map_read_data block_layout memory_ok (Some empty_map)
         (Some (replicate 39 0)) = (Inl RUNTIME_ERROR_VALUE_OUT_OF_BOUNDS, Some empty_map)
   \<and> libfsapfs_container_physical_map_read_data header_layout memory_ok (Some empty_map)
         (Some (replicate 39 0)) = (Inl RUNTIME_ERROR_VALUE_OUT_OF_BOUNDS, Some empty_map)
   \<and> error_kind_of RUNTIME_ERROR_VALUE_OUT_OF_BOUNDS = Some OutOfBounds
   \<and> error_kind_of RUNTIME_ERROR_VALUE_OUT_OF_BOUNDS \<noteq> Some Truncated
   \<and> fst (libfsapfs_container_physical_map_read_data block_layout memory_ok (Some empty_map)
         (Some (replicate 39 0)))
     = fst (libfsapfs_container_physical_map_read_data block_layout memory_ok (Some empty_map)
         (Some block_with_102_entries))"
  by (simp add: libfsapfs_container_physical_map_read_data_def block_layout_def header_layout_def
      block_with_102_entries_facts SSIZE_MAX_def)

text \<open>
  Claim C4, amended. Every buffer shorter than the map structure
  \<^verbatim>\<open>fsapfs_container_physical_map_t\<close>, which holds at least the 40 bytes of the header,
  and so every buffer shorter than 40 bytes, and every buffer longer than \<^verbatim>\<open>SSIZE_MAX\<close>,
  is rejected with the value-out-of-bounds error (\<open>OutOfBounds\<close>), and the map is left as
  it was.
\<close>

theorem short_buffer_rejected:
  assumes "layout_ok L"
    and "length data < 40 \<or> length data < sizeof_fsapfs_container_physical_map L
         \<or> SSIZE_MAX < length data"
  shows "libfsapfs_container_physical_map_read_data L M (Some m) (Some data)
           = (Inl RUNTIME_ERROR_VALUE_OUT_OF_BOUNDS, Some m)
       \<and> error_kind_of RUNTIME_ERROR_VALUE_OUT_OF_BOUNDS = Some OutOfBounds"
proof -
  have "length data < sizeof_fsapfs_container_physical_map L \<or> SSIZE_MAX < length data"
    using assms by (auto simp: layout_ok_def)
  then show ?thesis
    by (auto simp: libfsapfs_container_physical_map_read_data_def)
qed

text \<open>The buffer of 39 zero bytes, in both layouts.\<close>

theorem short_buffer_rejected_witness:
  "layout_ok block_layout
   \<and> length (replicate 39 (0::uint8_t)) < 40
   \<and> libfsapfs_container_physical_map_read_data block_layout memory_ok (Some empty_map)
         (Some (replicate 39 0)) = (Inl RUNTIME_ERROR_VALUE_OUT_OF_BOUNDS, Some empty_map)
   \<and> layout_ok header_layout
   \<and> length (replicate 39 (0::uint8_t)) < sizeof_fsapfs_container_physical_map header_layout
   \<and> libfsapfs_container_physical_map_read_data header_layout memory_ok (Some empty_map)
         (Some (replicate 39 0)) = (Inl RUNTIME_ERROR_VALUE_OUT_OF_BOUNDS, Some empty_map)"
proof -
  have a: "layout_ok block_layout" and b: "layout_ok header_layout"
    by (simp_all add: layout_ok_def block_layout_def header_layout_def
        sizeof_fsapfs_container_physical_map_entry_def)
  have c: "length (replicate 39 (0::uint8_t)) < 40
           \<or> length (replicate 39 (0::uint8_t)) < sizeof_fsapfs_container_physical_map block_layout
           \<or> SSIZE_MAX < length (replicate 39 (0::uint8_t))"
    by simp
  have d: "length (replicate 39 (0::uint8_t)) < 40
           \<or> length (replicate 39 (0::uint8_t)) < sizeof_fsapfs_container_physical_map header_layout
           \<or> SSIZE_MAX < length (replicate 39 (0::uint8_t))"
    by simp
  show ?thesis
    using a b short_buffer_rejected [OF a c, of memory_ok empty_map]
      short_buffer_rejected [OF b d, of memory_ok empty_map]
    by (simp add: header_layout_def)
qed

subsection \<open>C5: an identifier that the map does not hold\<close>

text \<open>
  Claim C5. For a map decoded with success into a freshly initialised map, and an object
  identifier that no entry of the map holds, the lookup returns 0, sets no error and
  stores nothing through the caller's pointer.
\<close>

theorem lookup_miss:
  assumes "libfsapfs_container_physical_map_initialize M0 (Some None) = (Inr (), Some (Some m0))"
    and "libfsapfs_container_physical_map_read_data L M (Some m0) (Some data) = (Inr (), Some m)"
    and "\<forall>a e. entries_array m = Some a \<longrightarrow> Some e \<in> set a \<longrightarrow> object_identifier e \<noteq> x"
  shows "libfsapfs_container_physical_map_get_physical_address_by_object_identifier
           (Some m) x (Some v)
         = \<lparr>return_value = 0, error = None, stored = [], map_after = Some m\<rparr>"
proof -
  have arr0: "entries_array m0 = Some []"
    using initialize_fresh [OF assms(1)] by simp
  from read_data_cases [OF assms(2)] obtain n where
    "read_map_entries L M data n 0 (40 + sizeof_fsapfs_container_physical_map_entry * 0) m0
       = (Inr (), m)"
    by auto
  from read_map_entries_appends [OF arr0 this] obtain j where
    "m = m0\<lparr>entries_array := Some ([] @ map (\<lambda>k. Some (block_entry L data k)) [0..<j])\<rparr>"
    by blast
  then have arr: "entries_array m = Some (map Some (map (block_entry L data) [0..<j]))"
    by (simp add: comp_def)
  have "find (\<lambda>e. x = object_identifier e) (map (block_entry L data) [0..<j]) = None"
    using assms(3) arr by (auto simp: find_None_iff)
  then show ?thesis by (simp add: lookup_in_decoded [OF arr])
qed

text \<open>The block with the two entries \<open>0x400\<close> and \<open>0x401\<close>, and the identifier \<open>0x402\<close>.\<close>

theorem lookup_miss_witness:
  "libfsapfs_container_physical_map_initialize memory_ok (Some None)
       = (Inr (), Some (Some empty_map))
   \<and> libfsapfs_container_physical_map_read_data block_layout memory_ok (Some empty_map)
        (Some block_with_two_entries)
       = (Inr (), Some \<lparr>entries_array = Some
            [Some \<lparr>object_identifier = 0x400, physical_address = 9\<rparr>,
             Some \<lparr>object_identifier = 0x401, physical_address = 7\<rparr>]\<rparr>)
   \<and> libfsapfs_container_physical_map_get_physical_address_by_object_identifier
        (Some \<lparr>entries_array = Some
            [Some \<lparr>object_identifier = 0x400, physical_address = 9\<rparr>,
             Some \<lparr>object_identifier = 0x401, physical_address = 7\<rparr>]\<rparr>) 0x402 (Some 0)
       = \<lparr>return_value = 0, error = None, stored = [],
          map_after = Some \<lparr>entries_array = Some
            [Some \<lparr>object_identifier = 0x400, physical_address = 9\<rparr>,
             Some \<lparr>object_identifier = 0x401, physical_address = 7\<rparr>]\<rparr>\<rparr>"
proof -
  let ?m = "\<lparr>entries_array = Some
            [Some \<lparr>object_identifier = 0x400, physical_address = 9\<rparr>,
             Some \<lparr>object_identifier = 0x401, physical_address = (7::uint64_t)\<rparr>]\<rparr>"
  have absent: "\<forall>a e. entries_array ?m = Some a \<longrightarrow> Some e \<in> set a
                  \<longrightarrow> object_identifier e \<noteq> 0x402"
    by auto
  from lookup_miss [OF initialize_memory_ok read_block_with_two_entries absent, of 0]
  show ?thesis
    using initialize_memory_ok read_block_with_two_entries by simp
qed

subsection \<open>C6: two entries with the same identifier\<close>

text \<open>
  Claim C6 says that a block with two entries of the same object identifier is reported as
  corrupt. The code compares no identifiers while it decodes: the block below, whose two
  records hold the identifier \<open>0x400\<close> with the physical addresses 9 and 7, is decoded
  with success, both entries are in the map, and the lookup of \<open>0x400\<close> returns the
  address 9 of the first.
\<close>

theorem duplicates_counterexample:
  "libfsapfs_container_physical_map_read_data block_layout memory_ok (Some empty_map)
     (Some block_with_duplicate)
   = (Inr (), Some \<lparr>entries_array = Some
        [Some \<lparr>object_identifier = 0x400, physical_address = 9\<rparr>,
         Some \<lparr>object_identifier = 0x400, physical_address = 7\<rparr>]\<rparr>)
   \<and> libfsapfs_container_physical_map_read_data header_layout memory_ok (Some empty_map)
     (Some block_with_duplicate)
   = (Inr (), Some \<lparr>entries_array = Some
        [Some \<lparr>object_identifier = 0x400, physical_address = 9\<rparr>,
         Some \<lparr>object_identifier = 0x400, physical_address = 7\<rparr>]\<rparr>)
   \<and> libfsapfs_container_physical_map_get_physical_address_by_object_identifier
     (Some \<lparr>entries_array = Some
        [Some \<lparr>object_identifier = 0x400, physical_address = 9\<rparr>,
         Some \<lparr>object_identifier = 0x400, physical_address = 7\<rparr>]\<rparr>) 0x400 (Some 0)
   = \<lparr>return_value = 1, error = None, stored = [9], map_after = Some \<lparr>entries_array = Some
        [Some \<lparr>object_identifier = 0x400, physical_address = 9\<rparr>,
         Some \<lparr>object_identifier = 0x400, physical_address = 7\<rparr>]\<rparr>\<rparr>"
  by (simp add: read_block_with_duplicate lookup_in_duplicate)

text \<open>
  Claim C6, amended. Decoding a valid block of at most 101 entries succeeds whether or not
  two entries hold the same object identifier; the map holds every entry in the order on
  disk, and the lookup of an entry's object identifier returns 1 with the physical address
  of the first entry in that order that holds the identifier.
\<close>

theorem duplicates_accepted:
  assumes "layout_ok L"
    and "libfsapfs_container_physical_map_initialize M0 (Some None) = (Inr (), Some (Some m0))"
    and "sizeof_fsapfs_container_physical_map L \<le> length data"
    and "length data \<le> SSIZE_MAX"
    and "byte_stream_copy_to_uint32_little_endian data object_type_offset = 0x4000000c"
    and "unat (byte_stream_copy_to_uint32_little_endian data number_of_entries_offset) = length es"
    and "length es \<le> 101"
    and "\<forall>k<length es.
        libfsapfs_container_physical_map_entry_read_data L
          (libfsapfs_container_physical_map_entry_initialize True)
          (Some (map_entry_record data k)) (length (map_entry_record data k)) = Inr (es ! k)"
    and "allocations_ok M (length es)"
  shows "libfsapfs_container_physical_map_read_data L M (Some m0) (Some data)
           = (Inr (), Some \<lparr>entries_array = Some (map Some es)\<rparr>)
       \<and> (\<forall>k<length es. \<exists>j\<le>k.
             object_identifier (es ! j) = object_identifier (es ! k)
             \<and> (\<forall>i<j. object_identifier (es ! i) \<noteq> object_identifier (es ! k))
             \<and> libfsapfs_container_physical_map_get_physical_address_by_object_identifier
                   (Some \<lparr>entries_array = Some (map Some es)\<rparr>)
                   (object_identifier (es ! k)) (Some v)
                 = \<lparr>return_value = 1, error = None, stored = [physical_address (es ! j)],
                    map_after = Some \<lparr>entries_array = Some (map Some es)\<rparr>\<rparr>)"
proof -
  let ?m = "\<lparr>entries_array = Some (map Some es)\<rparr>"
  have m0: "m0 = \<lparr>entries_array = Some []\<rparr>"
    using assms(2) by (rule initialize_fresh)
  then have arr0: "entries_array m0 = Some []" by simp
  have run: "libfsapfs_container_physical_map_read_data L M (Some m0) (Some data) = (Inr (), Some ?m)"
    using read_valid_block [OF assms(1,3-9) arr0] m0 by simp
  have arr: "entries_array ?m = Some (map Some es)" by simp
  have "\<exists>j\<le>k. object_identifier (es ! j) = object_identifier (es ! k)
             \<and> (\<forall>i<j. object_identifier (es ! i) \<noteq> object_identifier (es ! k))
             \<and> libfsapfs_container_physical_map_get_physical_address_by_object_identifier
                   (Some ?m) (object_identifier (es ! k)) (Some v)
                 = \<lparr>return_value = 1, error = None, stored = [physical_address (es ! j)],
                    map_after = Some ?m\<rparr>" if "k < length es" for k
  proof -
    from find_first_index [OF that, of object_identifier] obtain j where
      j: "j \<le> k" "find (\<lambda>e. object_identifier (es ! k) = object_identifier e) es = Some (es ! j)"
         "object_identifier (es ! j) = object_identifier (es ! k)"
         "\<forall>i<j. object_identifier (es ! i) \<noteq> object_identifier (es ! k)"
      by blast
    have "libfsapfs_container_physical_map_get_physical_address_by_object_identifier
                   (Some ?m) (object_identifier (es ! k)) (Some v)
                 = \<lparr>return_value = 1, error = None, stored = [physical_address (es ! j)],
                    map_after = Some ?m\<rparr>"
      using j(2) by (simp add: lookup_in_decoded [OF arr])
    with j(1,3,4) show ?thesis by blast
  qed
  with run show ?thesis by blast
qed

text \<open>The block with the identifier \<open>0x400\<close> twice.\<close>

theorem duplicates_accepted_witness:
  "layout_ok block_layout
   \<and> libfsapfs_container_physical_map_initialize memory_ok (Some None)
       = (Inr (), Some (Some empty_map))
   \<and> sizeof_fsapfs_container_physical_map block_layout \<le> length block_with_duplicate
   \<and> length block_with_duplicate \<le> SSIZE_MAX
   \<and> byte_stream_copy_to_uint32_little_endian block_with_duplicate object_type_offset = 0x4000000c
   \<and> unat (byte_stream_copy_to_uint32_little_endian block_with_duplicate number_of_entries_offset) = 2
   \<and> libfsapfs_container_physical_map_entry_read_data block_layout
        (libfsapfs_container_physical_map_entry_initialize True)
        (Some (map_entry_record block_with_duplicate 0))
        (length (map_entry_record block_with_duplicate 0))
       = Inr \<lparr>object_identifier = 0x400, physical_address = 9\<rparr>
   \<and> libfsapfs_container_physical_map_entry_read_data block_layout
        (libfsapfs_container_physical_map_entry_initialize True)
        (Some (map_entry_record block_with_duplicate 1))
        (length (map_entry_record block_with_duplicate 1))
       = Inr \<lparr>object_identifier = 0x400, physical_address = 7\<rparr>
   \<and> allocations_ok memory_ok 2
   \<and> libfsapfs_container_physical_map_read_data block_layout memory_ok (Some empty_map)
        (Some block_with_duplicate)
       = (Inr (), Some \<lparr>entries_array = Some (map Some
            [\<lparr>object_identifier = 0x400, physical_address = 9\<rparr>,
             \<lparr>object_identifier = 0x400, physical_address = 7\<rparr>])\<rparr>)
   \<and> (\<exists>j\<le>1. libfsapfs_container_physical_map_get_physical_address_by_object_identifier
           (Some \<lparr>entries_array = Some (map Some
              [\<lparr>object_identifier = 0x400, physical_address = 9\<rparr>,
               \<lparr>object_identifier = 0x400, physical_address = 7\<rparr>])\<rparr>) 0x400 (Some 0)
         = \<lparr>return_value = 1, error = None,
            stored = [physical_address
              ([\<lparr>object_identifier = 0x400, physical_address = 9\<rparr>,
                \<lparr>object_identifier = 0x400, physical_address = 7\<rparr>] ! j)],
            map_after = Some \<lparr>entries_array = Some (map Some
              [\<lparr>object_identifier = 0x400, physical_address = 9\<rparr>,
               \<lparr>object_identifier = 0x400, physical_address = 7\<rparr>])\<rparr>\<rparr>)"
proof -
  let ?es = "[\<lparr>object_identifier = 0x400, physical_address = 9\<rparr>,
              \<lparr>object_identifier = 0x400, physical_address = (7::uint64_t)\<rparr>]"
  have size: "sizeof_fsapfs_container_physical_map block_layout \<le> length block_with_duplicate"
    "length block_with_duplicate \<le> SSIZE_MAX"
    by (simp_all add: block_with_duplicate_facts block_layout_def SSIZE_MAX_def)
  have count: "unat (byte_stream_copy_to_uint32_little_endian block_with_duplicate
                 number_of_entries_offset) = length ?es"
    by (simp add: block_with_duplicate_facts)
  have ceiling: "length ?es \<le> 101" by simp
  have recs: "\<forall>k<length ?es.
        libfsapfs_container_physical_map_entry_read_data block_layout
          (libfsapfs_container_physical_map_entry_initialize True)
          (Some (map_entry_record block_with_duplicate k))
          (length (map_entry_record block_with_duplicate k)) = Inr (?es ! k)"
    using records_of_block_with_duplicate by (auto simp: less_Suc_eq)
  note inst = duplicates_accepted
    [OF block_layout_ok initialize_memory_ok size block_with_duplicate_facts(2) count ceiling
        recs allocations_memory_ok, of 0]
  from inst have run:
    "libfsapfs_container_physical_map_read_data block_layout memory_ok (Some empty_map)
        (Some block_with_duplicate) = (Inr (), Some \<lparr>entries_array = Some (map Some ?es)\<rparr>)"
    by blast
  from inst have "\<exists>j\<le>1.
       libfsapfs_container_physical_map_get_physical_address_by_object_identifier
           (Some \<lparr>entries_array = Some (map Some ?es)\<rparr>) (object_identifier (?es ! 1)) (Some 0)
         = \<lparr>return_value = 1, error = None, stored = [physical_address (?es ! j)],
            map_after = Some \<lparr>entries_array = Some (map Some ?es)\<rparr>\<rparr>"
    by (elim conjE allE [of _ 1]) auto
  then have look: "\<exists>j\<le>1.
       libfsapfs_container_physical_map_get_physical_address_by_object_identifier
           (Some \<lparr>entries_array = Some (map Some ?es)\<rparr>) 0x400 (Some 0)
         = \<lparr>return_value = 1, error = None, stored = [physical_address (?es ! j)],
            map_after = Some \<lparr>entries_array = Some (map Some ?es)\<rparr>\<rparr>"
    by simp
  show ?thesis
    using block_layout_ok initialize_memory_ok size block_with_duplicate_facts
      records_of_block_with_duplicate allocations_memory_ok [of 2] run look
    by (intro conjI) simp_all
qed

subsection \<open>C7: a failure among the entries\<close>




subsection \<open>C8: decoding the same buffer twice\<close>

text \<open>
  Claim C8. Decoding the same buffer twice, each time into a freshly initialised map and
  with allocations that behave alike for the at most 101 entries, gives the same result:
  the same return value and error, and the same map, entry for entry. The decoder reads
  nothing but its arguments.
\<close>

theorem decode_twice_equal:
  assumes "libfsapfs_container_physical_map_initialize M1 (Some None) = (Inr (), Some (Some m1))"
    and "libfsapfs_container_physical_map_initialize M2 (Some None) = (Inr (), Some (Some m2))"
    and "\<forall>k<101. entry_initialize_ok M1 k = entry_initialize_ok M2 k
                  \<and> array_append_ok M1 k = array_append_ok M2 k"
  shows "libfsapfs_container_physical_map_read_data L M1 (Some m1) (Some data)
       = libfsapfs_container_physical_map_read_data L M2 (Some m2) (Some data)"
proof -
  let ?n = "byte_stream_copy_to_uint32_little_endian data number_of_entries_offset"
  have m: "m1 = m2"
    using initialize_fresh [OF assms(1)] initialize_fresh [OF assms(2)] by simp
  show ?thesis
  proof (cases "101 < ?n")
    case True
    then show ?thesis
      by (simp add: m libfsapfs_container_physical_map_read_data_def)
  next
    case False
    then have "unat ?n \<le> 101" by (simp add: not_less word_le_nat_alt)
    with assms(3) have "\<forall>k<unat ?n. entry_initialize_ok M1 k = entry_initialize_ok M2 k
                  \<and> array_append_ok M1 k = array_append_ok M2 k"
      by simp
    from read_map_entries_memory [OF this]
    show ?thesis
      by (simp add: m libfsapfs_container_physical_map_read_data_def)
  qed
qed

text \<open>
  Two memories that differ only from the allocation of index 101 on, and the block with
  two entries.
\<close>

theorem decode_twice_equal_witness:
  "libfsapfs_container_physical_map_initialize memory_ok (Some None)
       = (Inr (), Some (Some empty_map))
   \<and> libfsapfs_container_physical_map_initialize memory_for_one_block (Some None)
       = (Inr (), Some (Some empty_map))
   \<and> memory_ok \<noteq> memory_for_one_block
   \<and> libfsapfs_container_physical_map_read_data block_layout memory_ok (Some empty_map)
        (Some block_with_two_entries)
     = libfsapfs_container_physical_map_read_data block_layout memory_for_one_block
        (Some empty_map) (Some block_with_two_entries)
   \<and> libfsapfs_container_physical_map_read_data block_layout memory_for_one_block
        (Some empty_map) (Some block_with_two_entries)
     = (Inr (), Some \<lparr>entries_array = Some
        [Some \<lparr>object_identifier = 0x400, physical_address = 9\<rparr>,
         Some \<lparr>object_identifier = 0x401, physical_address = 7\<rparr>]\<rparr>)"
proof -
  have same: "\<forall>k<101. entry_initialize_ok memory_ok k = entry_initialize_ok memory_for_one_block k
                \<and> array_append_ok memory_ok k = array_append_ok memory_for_one_block k"
    by (simp add: memory_ok_def memory_for_one_block_def)
  have "entry_initialize_ok memory_ok 101 \<noteq> entry_initialize_ok memory_for_one_block 101"
    by (simp add: memory_ok_def memory_for_one_block_def)
  then have diff: "memory_ok \<noteq> memory_for_one_block" by auto
  from decode_twice_equal [OF initialize_memory_ok initialize_memory_for_one_block same,
      of block_layout block_with_two_entries]
  show ?thesis
    using initialize_memory_ok initialize_memory_for_one_block diff read_block_with_two_entries_one_block by simp
qed

subsection \<open>C9: the lookup does not change the map\<close>

text \<open>
  Claim C9. For every map (also a \<^verbatim>\<open>NULL\<close> one, one without an array or one with a
  \<^verbatim>\<open>NULL\<close> entry), every object identifier and every pointer for the result, the map
  after a call of the lookup is the map before it: the entries array and every field of
  every entry, whether the call returns a hit, a miss or an error.
\<close>

theorem lookup_leaves_map:
  "map_after (libfsapfs_container_physical_map_get_physical_address_by_object_identifier
     container_physical_map identifier physical_address_pointer) = container_physical_map"
  by (simp add: libfsapfs_container_physical_map_get_physical_address_by_object_identifier_def
      scan_entries_map_after split: option.splits)

text \<open>A hit in a map of two entries, and an error in a map with a \<^verbatim>\<open>NULL\<close> entry.\<close>

theorem lookup_leaves_map_witness:
  "map_after (libfsapfs_container_physical_map_get_physical_address_by_object_identifier
     (Some \<lparr>entries_array = Some
        [Some \<lparr>object_identifier = 0x400, physical_address = 9\<rparr>,
         Some \<lparr>object_identifier = 0x401, physical_address = 7\<rparr>]\<rparr>) 0x401 (Some 0))
   = Some \<lparr>entries_array = Some
        [Some \<lparr>object_identifier = 0x400, physical_address = 9\<rparr>,
         Some \<lparr>object_identifier = 0x401, physical_address = 7\<rparr>]\<rparr>
   \<and> return_value (libfsapfs_container_physical_map_get_physical_address_by_object_identifier
     (Some \<lparr>entries_array = Some
        [Some \<lparr>object_identifier = 0x400, physical_address = 9\<rparr>,
         Some \<lparr>object_identifier = 0x401, physical_address = 7\<rparr>]\<rparr>) 0x401 (Some 0)) = 1
   \<and> map_after (libfsapfs_container_physical_map_get_physical_address_by_object_identifier
     (Some \<lparr>entries_array = Some
        [Some \<lparr>object_identifier = 0x400, physical_address = 9\<rparr>, None,
         Some \<lparr>object_identifier = 0x401, physical_address = 7\<rparr>]\<rparr>) 0x401 (Some 0))
   = Some \<lparr>entries_array = Some
        [Some \<lparr>object_identifier = 0x400, physical_address = 9\<rparr>, None,
         Some \<lparr>object_identifier = 0x401, physical_address = 7\<rparr>]\<rparr>
   \<and> return_value (libfsapfs_container_physical_map_get_physical_address_by_object_identifier
     (Some \<lparr>entries_array = Some
        [Some \<lparr>object_identifier = 0x400, physical_address = 9\<rparr>, None,
         Some \<lparr>object_identifier = 0x401, physical_address = 7\<rparr>]\<rparr>) 0x401 (Some 0)) = - 1"
  using lookup_leaves_map [of "Some \<lparr>entries_array = Some
        [Some \<lparr>object_identifier = 0x400, physical_address = 9\<rparr>,
         Some \<lparr>object_identifier = 0x401, physical_address = 7\<rparr>]\<rparr>" "0x401" "Some 0"]
    lookup_leaves_map [of "Some \<lparr>entries_array = Some
        [Some \<lparr>object_identifier = 0x400, physical_address = 9\<rparr>, None,
         Some \<lparr>object_identifier = 0x401, physical_address = 7\<rparr>]\<rparr>" "0x401" "Some 0"]
  by (simp add: lookup_in_two_entries)

subsection \<open>C10: the caller's location for the physical address\<close>

text \<open>
  Claim C10. A call of the lookup with a pointer that is not \<^verbatim>\<open>NULL\<close> returns 1, 0 or
  \<open>-1\<close>; it stores a value through the pointer exactly when it returns 1, and then the
  one value stored is the physical address of an entry of the map that holds the
  identifier; when it returns 0 or \<open>-1\<close> the location holds what it held before. With a
  \<^verbatim>\<open>NULL\<close> pointer the call returns \<open>-1\<close> and stores nothing.
\<close>

theorem lookup_output_location:
  "(let r = libfsapfs_container_physical_map_get_physical_address_by_object_identifier
              container_physical_map identifier (Some v)
    in (return_value r = 1 \<or> return_value r = 0 \<or> return_value r = - 1)
       \<and> (return_value r = 1) = (stored r \<noteq> [])
       \<and> (return_value r \<noteq> 1 \<longrightarrow> location_after v (stored r) = v)
       \<and> (return_value r = 1 \<longrightarrow>
            (\<exists>m e k. container_physical_map = Some m
               \<and> libcdata_array_get_entry_by_index (entries_array m) k = Some (Some e)
               \<and> identifier = object_identifier e
               \<and> stored r = [physical_address e]
               \<and> location_after v (stored r) = physical_address e)))
   \<and> stored (libfsapfs_container_physical_map_get_physical_address_by_object_identifier
         container_physical_map identifier None) = []
   \<and> return_value (libfsapfs_container_physical_map_get_physical_address_by_object_identifier
         container_physical_map identifier None) = - 1"
proof (cases container_physical_map)
  case None
  then show ?thesis
    by (simp add: location_after_def
        libfsapfs_container_physical_map_get_physical_address_by_object_identifier_def)
next
  case (Some m)
  show ?thesis
  proof (cases "libcdata_array_get_number_of_entries (entries_array m)")
    case None
    with Some show ?thesis
      by (simp add: location_after_def
          libfsapfs_container_physical_map_get_physical_address_by_object_identifier_def)
  next
    case (Some n)
    have r: "libfsapfs_container_physical_map_get_physical_address_by_object_identifier
              container_physical_map identifier (Some v) = scan_entries m identifier n 0"
      using Some \<open>container_physical_map = Some m\<close>
      by (simp add:
          libfsapfs_container_physical_map_get_physical_address_by_object_identifier_def)
    have null: "stored (libfsapfs_container_physical_map_get_physical_address_by_object_identifier
             container_physical_map identifier None) = []
       \<and> return_value (libfsapfs_container_physical_map_get_physical_address_by_object_identifier
             container_physical_map identifier None) = - 1"
      using \<open>container_physical_map = Some m\<close>
      by (simp add: libfsapfs_container_physical_map_get_physical_address_by_object_identifier_def)
    from scan_entries_output [of m "identifier" n v, unfolded Let_def] null show ?thesis
      unfolding r Let_def using \<open>container_physical_map = Some m\<close>
      by blast
  qed
qed

text \<open>A miss leaves the value 0 in the location; a hit leaves the physical address 7.\<close>

theorem lookup_output_location_witness:
  "return_value (libfsapfs_container_physical_map_get_physical_address_by_object_identifier
     (Some \<lparr>entries_array = Some
        [Some \<lparr>object_identifier = 0x400, physical_address = 9\<rparr>,
         Some \<lparr>object_identifier = 0x401, physical_address = 7\<rparr>]\<rparr>) 0x402 (Some 0)) \<noteq> 1
   \<and> location_after 0 (stored (libfsapfs_container_physical_map_get_physical_address_by_object_identifier
     (Some \<lparr>entries_array = Some
        [Some \<lparr>object_identifier = 0x400, physical_address = 9\<rparr>,
         Some \<lparr>object_identifier = 0x401, physical_address = 7\<rparr>]\<rparr>) 0x402 (Some 0))) = 0
   \<and> return_value (libfsapfs_container_physical_map_get_physical_address_by_object_identifier
     (Some \<lparr>entries_array = Some
        [Some \<lparr>object_identifier = 0x400, physical_address = 9\<rparr>,
         Some \<lparr>object_identifier = 0x401, physical_address = 7\<rparr>]\<rparr>) 0x401 (Some 0)) = 1
   \<and> location_after 0 (stored (libfsapfs_container_physical_map_get_physical_address_by_object_identifier
     (Some \<lparr>entries_array = Some
        [Some \<lparr>object_identifier = 0x400, physical_address = 9\<rparr>,
         Some \<lparr>object_identifier = 0x401, physical_address = 7\<rparr>]\<rparr>) 0x401 (Some 0))) = 7"
  using lookup_output_location [of "Some \<lparr>entries_array = Some
        [Some \<lparr>object_identifier = 0x400, physical_address = 9\<rparr>,
         Some \<lparr>object_identifier = 0x401, physical_address = 7\<rparr>]\<rparr>" "0x402" 0]
    lookup_output_location [of "Some \<lparr>entries_array = Some
        [Some \<lparr>object_identifier = 0x400, physical_address = 9\<rparr>,
         Some \<lparr>object_identifier = 0x401, physical_address = 7\<rparr>]\<rparr>" "0x401" 0]
  by (simp add: lookup_in_two_entries location_after_def Let_def)

end
